theory Spec2Isabelle
  imports Complex_Main "HOL-Library.Word"
begin

unbundle bit_operations_syntax

section \<open>x86 fragments used by the pixel JIT (DrawPixelX86.cpp)\<close>

text \<open>
  The pixel-pipeline compiler emits x86 instructions; the embedding gives each emitted
  instruction its effect on the register it names, so that a \<open>Jit_*\<close> function of the
  source becomes the function computed by the code it emits.  A comparison sets the zero
  and carry flags; a conditional jump reads them.
\<close>

record flags =
  ZF :: bool
  CF :: bool

datatype CCFlags = CC_E | CC_NE | CC_B | CC_AE | CC_BE | CC_A

definition CMP :: "'a::len word \<Rightarrow> 'a word \<Rightarrow> flags" where
  "CMP a b = \<lparr>ZF = (a = b), CF = (a < b)\<rparr>"

fun cc_holds :: "CCFlags \<Rightarrow> flags \<Rightarrow> bool" where
  "cc_holds CC_E f = ZF f"
| "cc_holds CC_NE f = (\<not> ZF f)"
| "cc_holds CC_B f = CF f"
| "cc_holds CC_AE f = (\<not> CF f)"
| "cc_holds CC_BE f = (CF f \<or> ZF f)"
| "cc_holds CC_A f = (\<not> CF f \<and> \<not> ZF f)"

text \<open>The low byte of a 32-bit general register, and an 8-bit write to it (the upper
  24 bits keep their value, as for \<open>MOV(8, ...)\<close>, \<open>ADD(8, ...)\<close>, \<open>NOT(8, ...)\<close>).\<close>

definition low8 :: "32 word \<Rightarrow> 8 word" where
  "low8 r = ucast r"

definition set_low8 :: "32 word \<Rightarrow> 8 word \<Rightarrow> 32 word" where
  "set_low8 r b = (r AND NOT 0xFF) OR ucast b"

text \<open>Four-lane vectors (\<open>Vec4<T>\<close>, and the low four 16-bit lanes of an XMM register);
  for a colour the lanes are r, g, b, a.\<close>

datatype 'a Vec4 = Vec4 (lane0: 'a) (lane1: 'a) (lane2: 'a) (lane3: 'a)

fun lanewise :: "('a \<Rightarrow> 'b \<Rightarrow> 'c) \<Rightarrow> 'a Vec4 \<Rightarrow> 'b Vec4 \<Rightarrow> 'c Vec4" where
  "lanewise f (Vec4 a0 a1 a2 a3) (Vec4 b0 b1 b2 b3) = Vec4 (f a0 b0) (f a1 b1) (f a2 b2) (f a3 b3)"

definition AssignToAll :: "'a \<Rightarrow> 'a Vec4" where
  "AssignToAll v = Vec4 v v v v"

text \<open>The SSE instructions of the fog stage, on 16-bit lanes.\<close>

definition PMULLW_lane :: "16 word \<Rightarrow> 16 word \<Rightarrow> 16 word" where
  "PMULLW_lane a b = a * b"

definition PSUBUSW_lane :: "16 word \<Rightarrow> 16 word \<Rightarrow> 16 word" where
  "PSUBUSW_lane a b = (if a < b then 0 else a - b)"

definition PADDUSW_lane :: "16 word \<Rightarrow> 16 word \<Rightarrow> 16 word" where
  "PADDUSW_lane a b = (if 0xFFFF < unat a + unat b then 0xFFFF else a + b)"

definition PMULHUW_lane :: "16 word \<Rightarrow> 16 word \<Rightarrow> 16 word" where
  "PMULHUW_lane a b = ucast (drop_bit 16 ((ucast a :: 32 word) * ucast b))"

definition PSRLW_lane :: "nat \<Rightarrow> 16 word \<Rightarrow> 16 word" where
  "PSRLW_lane n a = drop_bit n a"

definition PMULLW :: "16 word Vec4 \<Rightarrow> 16 word Vec4 \<Rightarrow> 16 word Vec4" where
  "PMULLW = lanewise PMULLW_lane"

definition PSUBUSW :: "16 word Vec4 \<Rightarrow> 16 word Vec4 \<Rightarrow> 16 word Vec4" where
  "PSUBUSW = lanewise PSUBUSW_lane"

definition PADDUSW :: "16 word Vec4 \<Rightarrow> 16 word Vec4 \<Rightarrow> 16 word Vec4" where
  "PADDUSW = lanewise PADDUSW_lane"

definition PMULHUW :: "16 word Vec4 \<Rightarrow> 16 word Vec4 \<Rightarrow> 16 word Vec4" where
  "PMULHUW = lanewise PMULHUW_lane"

definition PSRLW :: "16 word Vec4 \<Rightarrow> nat \<Rightarrow> 16 word Vec4" where
  "PSRLW v n = map_Vec4 (PSRLW_lane n) v"

definition PMOVZXBW :: "8 word Vec4 \<Rightarrow> 16 word Vec4" where
  "PMOVZXBW v = map_Vec4 ucast v"

text \<open>\<open>PEXTRW(r, v, 3)\<close> and \<open>PINSRW(v, r, 3)\<close>: lane 3 to and from a general register.\<close>

definition PEXTRW3 :: "16 word Vec4 \<Rightarrow> 32 word" where
  "PEXTRW3 v = ucast (lane3 v)"

definition PINSRW3 :: "16 word Vec4 \<Rightarrow> 32 word \<Rightarrow> 16 word Vec4" where
  "PINSRW3 v r = Vec4 (lane0 v) (lane1 v) (lane2 v) (ucast r)"

text \<open>\<open>MOVD_xmm\<close> of a general register followed by \<open>PSHUFLW\<close> with shuffle (0,0,0,0):
  the low 16 bits of the register in each of the four low lanes.\<close>

definition MOVD_PSHUFLW0 :: "32 word \<Rightarrow> 16 word Vec4" where
  "MOVD_PSHUFLW0 r = AssignToAll (ucast r)"

section \<open>Configuration enumerations (ge_constants.h) and the pixel fingerprint\<close>

datatype GEBufferFormat = GE_FORMAT_565 | GE_FORMAT_5551 | GE_FORMAT_4444 | GE_FORMAT_8888

datatype GEStencilOp =
  GE_STENCILOP_KEEP | GE_STENCILOP_ZERO | GE_STENCILOP_REPLACE
| GE_STENCILOP_INVERT | GE_STENCILOP_INCR | GE_STENCILOP_DECR

datatype GEComparison =
  GE_COMP_NEVER | GE_COMP_ALWAYS | GE_COMP_EQUAL | GE_COMP_NOTEQUAL
| GE_COMP_LESS | GE_COMP_LEQUAL | GE_COMP_GREATER | GE_COMP_GEQUAL

text \<open>Blend factors and equations.  The factor switch of the source has a \<open>default\<close> branch
  for the enumeration values above the named ones; \<open>GE_SRCBLEND_UNUSED\<close>, \<open>GE_DSTBLEND_UNUSED\<close>
  and \<open>GE_BLENDMODE_UNUSED\<close> stand for those values.\<close>

datatype GEBlendSrcFactor =
  GE_SRCBLEND_DSTCOLOR | GE_SRCBLEND_INVDSTCOLOR | GE_SRCBLEND_SRCALPHA | GE_SRCBLEND_INVSRCALPHA
| GE_SRCBLEND_DSTALPHA | GE_SRCBLEND_INVDSTALPHA | GE_SRCBLEND_DOUBLESRCALPHA
| GE_SRCBLEND_DOUBLEINVSRCALPHA | GE_SRCBLEND_DOUBLEDSTALPHA | GE_SRCBLEND_DOUBLEINVDSTALPHA
| GE_SRCBLEND_FIXA | GE_SRCBLEND_UNUSED

datatype GEBlendDstFactor =
  GE_DSTBLEND_SRCCOLOR | GE_DSTBLEND_INVSRCCOLOR | GE_DSTBLEND_SRCALPHA | GE_DSTBLEND_INVSRCALPHA
| GE_DSTBLEND_DSTALPHA | GE_DSTBLEND_INVDSTALPHA | GE_DSTBLEND_DOUBLESRCALPHA
| GE_DSTBLEND_DOUBLEINVSRCALPHA | GE_DSTBLEND_DOUBLEDSTALPHA | GE_DSTBLEND_DOUBLEINVDSTALPHA
| GE_DSTBLEND_FIXB | GE_DSTBLEND_UNUSED

datatype GEBlendMode =
  GE_BLENDMODE_MUL_AND_ADD | GE_BLENDMODE_MUL_AND_SUBTRACT | GE_BLENDMODE_MUL_AND_SUBTRACT_REVERSE
| GE_BLENDMODE_MIN | GE_BLENDMODE_MAX | GE_BLENDMODE_ABSDIFF | GE_BLENDMODE_UNUSED

text \<open>The fields of \<open>PixelFuncID\<close> that the embedded stages read.\<close>

record PixelFuncID =
  clearMode :: bool
  stencilTest :: bool
  depthWrite :: bool
  applyFog :: bool
  hasStencilTestMask :: bool
  stencilTestRef :: "8 word"
  fbFormat :: GEBufferFormat
  DepthTestFunc :: GEComparison
  AlphaBlendSrc :: GEBlendSrcFactor
  AlphaBlendDst :: GEBlendDstFactor
  AlphaBlendEq :: GEBlendMode
  useStandardStride :: bool

text \<open>A fingerprint with every flag clear and every enumeration at its first value.\<close>

definition PixelFuncID_clear :: PixelFuncID where
  "PixelFuncID_clear =
     \<lparr>clearMode = False, stencilTest = False, depthWrite = False, applyFog = False,
      hasStencilTestMask = False, stencilTestRef = 0, fbFormat = GE_FORMAT_565,
      DepthTestFunc = GE_COMP_NEVER, AlphaBlendSrc = GE_SRCBLEND_DSTCOLOR,
      AlphaBlendDst = GE_DSTBLEND_SRCCOLOR, AlphaBlendEq = GE_BLENDMODE_MUL_AND_ADD,
      useStandardStride = False\<rparr>"

section \<open>Stencil operations: \<open>PixelJitCache::Jit_ApplyStencilOp\<close>\<close>

text \<open>
  \<open>stencilReg\<close> is a 32-bit register holding the stencil value in its low byte;
  \<open>stenciltest\<close> is the raw \<open>gstate.stenciltest\<close> command word, whose byte at offset 1 is
  the unmasked reference.  \<open>XOR(32, r, r)\<close> clears the register.  The skipped-over
  instructions of the saturating cases are the \<open>else\<close> branches.
\<close>

definition Jit_ApplyStencilOp ::
  "PixelFuncID \<Rightarrow> 32 word \<Rightarrow> GEStencilOp \<Rightarrow> 32 word \<Rightarrow> 32 word" where
  "Jit_ApplyStencilOp pid stenciltest op stencilReg =
    (case op of
       GE_STENCILOP_KEEP \<Rightarrow> stencilReg
     | GE_STENCILOP_ZERO \<Rightarrow> stencilReg XOR stencilReg
     | GE_STENCILOP_REPLACE \<Rightarrow>
         (if hasStencilTestMask pid
          then ucast (ucast (drop_bit 8 stenciltest) :: 8 word)
          else set_low8 stencilReg (stencilTestRef pid))
     | GE_STENCILOP_INVERT \<Rightarrow> set_low8 stencilReg (NOT (low8 stencilReg))
     | GE_STENCILOP_INCR \<Rightarrow>
         (case fbFormat pid of
            GE_FORMAT_565 \<Rightarrow> stencilReg
          | GE_FORMAT_5551 \<Rightarrow> set_low8 stencilReg 0xFF
          | GE_FORMAT_4444 \<Rightarrow>
              (if cc_holds CC_AE (CMP (low8 stencilReg) 0xF0) then stencilReg
               else set_low8 stencilReg (low8 stencilReg + 0x11))
          | GE_FORMAT_8888 \<Rightarrow>
              (if cc_holds CC_E (CMP (low8 stencilReg) 0xFF) then stencilReg
               else set_low8 stencilReg (low8 stencilReg + 0x01)))
     | GE_STENCILOP_DECR \<Rightarrow>
         (case fbFormat pid of
            GE_FORMAT_565 \<Rightarrow> stencilReg
          | GE_FORMAT_5551 \<Rightarrow> stencilReg XOR stencilReg
          | GE_FORMAT_4444 \<Rightarrow>
              (if cc_holds CC_B (CMP (low8 stencilReg) 0x11) then stencilReg
               else set_low8 stencilReg (low8 stencilReg - 0x11))
          | GE_FORMAT_8888 \<Rightarrow>
              (if cc_holds CC_E (CMP (low8 stencilReg) 0x00) then stencilReg
               else set_low8 stencilReg (low8 stencilReg - 0x01))))"

section \<open>Fog: \<open>PixelJitCache::Jit_ApplyFog\<close>\<close>

text \<open>
  The colour argument register is either the clamped colour at 8 bits per channel
  (\<open>colorIs16Bit_ = false\<close>) or its expansion to 16 bits per channel.
\<close>

datatype colorreg = Color8 "8 word Vec4" | Color16 "16 word Vec4"

definition by255i :: "16 word Vec4" where
  "by255i = AssignToAll 0x8081"

definition const255_16s :: "16 word Vec4" where
  "const255_16s = AssignToAll 255"

text \<open>
  \<open>fogcolor\<close> is the raw \<open>gstate.fogcolor\<close> word: its four bytes are expanded to the four
  lanes (the top byte lines up with alpha).  \<open>srcAlpha\<close> is the content of the
  \<open>GEN_SRC_ALPHA\<close> register when the register cache already has one (\<open>None\<close> otherwise);
  \<open>argFog\<close> is the fog argument register.  The result is the colour register after the
  stage.
\<close>

definition Jit_ApplyFog ::
  "PixelFuncID \<Rightarrow> 32 word \<Rightarrow> 32 word option \<Rightarrow> 32 word \<Rightarrow> colorreg \<Rightarrow> colorreg" where
  "Jit_ApplyFog pid fogcolor srcAlpha argFog argColor =
    (if \<not> applyFog pid then argColor
     else
       let fogColorReg = PMOVZXBW (Vec4 (ucast fogcolor) (ucast (drop_bit 8 fogcolor))
                                        (ucast (drop_bit 16 fogcolor)) (ucast (drop_bit 24 fogcolor)));
           invertReg = const255_16s;
           argColorReg = (case argColor of Color8 c \<Rightarrow> PMOVZXBW c | Color16 c \<Rightarrow> c);
           alphaReg = (case srcAlpha of Some a \<Rightarrow> a | None \<Rightarrow> PEXTRW3 argColorReg);
           fogMultReg = MOVD_PSHUFLW0 argFog;
           argColorReg = PMULLW argColorReg fogMultReg;
           invertReg = PSUBUSW invertReg fogMultReg;
           fogColorReg = PMULLW fogColorReg invertReg;
           argColorReg = PADDUSW argColorReg fogColorReg;
           argColorReg = PMULHUW argColorReg by255i;
           argColorReg = PSRLW argColorReg 7;
           argColorReg = PINSRW3 argColorReg alphaReg
       in Color16 argColorReg)"

text \<open>
  The blend the fog stage is specified to compute for one channel: the 16-bit sum
  \<open>c * w + f * (255 - w)\<close> multiplied by 0x8081, keeping the bits from bit 23 up (the high
  half of the 32-bit product, shifted right by 7).
\<close>

definition fog_blend_by255 :: "nat \<Rightarrow> nat \<Rightarrow> nat \<Rightarrow> nat" where
  "fog_blend_by255 c f w = ((c * w + f * (255 - w)) * 0x8081) div 2 ^ 23"

section \<open>Alpha blending: \<open>GetSourceFactor\<close>, \<open>GetDestFactor\<close>, \<open>AlphaBlendingResult\<close>\<close>

text \<open>
  \<open>Vec3<int>\<close> and \<open>Vec4<int>\<close> hold C \<open>int\<close> components, embedded as \<open>int\<close>; the
  values of this section stay far below $2^{31}$ for colour inputs.  \<open>cdiv\<close> is the
  division of C, which truncates towards zero.
\<close>

datatype 'a Vec3 = Vec3 (vr: 'a) (vg: 'a) (vb: 'a)

fun zip3 :: "('a \<Rightarrow> 'b \<Rightarrow> 'c) \<Rightarrow> 'a Vec3 \<Rightarrow> 'b Vec3 \<Rightarrow> 'c Vec3" where
  "zip3 f (Vec3 a0 a1 a2) (Vec3 b0 b1 b2) = Vec3 (f a0 b0) (f a1 b1) (f a2 b2)"

definition AssignToAll3 :: "'a \<Rightarrow> 'a Vec3" where
  "AssignToAll3 v = Vec3 v v v"

definition rgb :: "'a Vec4 \<Rightarrow> 'a Vec3" where
  "rgb c = Vec3 (lane0 c) (lane1 c) (lane2 c)"

definition cdiv :: "int \<Rightarrow> int \<Rightarrow> int" where
  "cdiv a b = sgn a * sgn b * (\<bar>a\<bar> div \<bar>b\<bar>)"

text \<open>\<open>fixA\<close> and \<open>fixB\<close> are \<open>Vec3<int>::FromRGB(gstate.getFixA())\<close> and
  \<open>Vec3<int>::FromRGB(gstate.getFixB())\<close>.\<close>

fun GetSourceFactor :: "int Vec3 \<Rightarrow> GEBlendSrcFactor \<Rightarrow> int Vec4 \<Rightarrow> int Vec4 \<Rightarrow> int Vec3" where
  "GetSourceFactor fixA GE_SRCBLEND_DSTCOLOR source dst = rgb dst"
| "GetSourceFactor fixA GE_SRCBLEND_INVDSTCOLOR source dst = zip3 (-) (AssignToAll3 255) (rgb dst)"
| "GetSourceFactor fixA GE_SRCBLEND_SRCALPHA source dst = AssignToAll3 (lane3 source)"
| "GetSourceFactor fixA GE_SRCBLEND_INVSRCALPHA source dst = AssignToAll3 (255 - lane3 source)"
| "GetSourceFactor fixA GE_SRCBLEND_DSTALPHA source dst = AssignToAll3 (lane3 dst)"
| "GetSourceFactor fixA GE_SRCBLEND_INVDSTALPHA source dst = AssignToAll3 (255 - lane3 dst)"
| "GetSourceFactor fixA GE_SRCBLEND_DOUBLESRCALPHA source dst = AssignToAll3 (2 * lane3 source)"
| "GetSourceFactor fixA GE_SRCBLEND_DOUBLEINVSRCALPHA source dst =
     AssignToAll3 (255 - min (2 * lane3 source) 255)"
| "GetSourceFactor fixA GE_SRCBLEND_DOUBLEDSTALPHA source dst = AssignToAll3 (2 * lane3 dst)"
| "GetSourceFactor fixA GE_SRCBLEND_DOUBLEINVDSTALPHA source dst =
     AssignToAll3 (255 - min (2 * lane3 dst) 255)"
| "GetSourceFactor fixA GE_SRCBLEND_FIXA source dst = fixA"
| "GetSourceFactor fixA GE_SRCBLEND_UNUSED source dst = fixA"

fun GetDestFactor :: "int Vec3 \<Rightarrow> GEBlendDstFactor \<Rightarrow> int Vec4 \<Rightarrow> int Vec4 \<Rightarrow> int Vec3" where
  "GetDestFactor fixB GE_DSTBLEND_SRCCOLOR source dst = rgb source"
| "GetDestFactor fixB GE_DSTBLEND_INVSRCCOLOR source dst = zip3 (-) (AssignToAll3 255) (rgb source)"
| "GetDestFactor fixB GE_DSTBLEND_SRCALPHA source dst = AssignToAll3 (lane3 source)"
| "GetDestFactor fixB GE_DSTBLEND_INVSRCALPHA source dst = AssignToAll3 (255 - lane3 source)"
| "GetDestFactor fixB GE_DSTBLEND_DSTALPHA source dst = AssignToAll3 (lane3 dst)"
| "GetDestFactor fixB GE_DSTBLEND_INVDSTALPHA source dst = AssignToAll3 (255 - lane3 dst)"
| "GetDestFactor fixB GE_DSTBLEND_DOUBLESRCALPHA source dst = AssignToAll3 (2 * lane3 source)"
| "GetDestFactor fixB GE_DSTBLEND_DOUBLEINVSRCALPHA source dst =
     AssignToAll3 (255 - min (2 * lane3 source) 255)"
| "GetDestFactor fixB GE_DSTBLEND_DOUBLEDSTALPHA source dst = AssignToAll3 (2 * lane3 dst)"
| "GetDestFactor fixB GE_DSTBLEND_DOUBLEINVDSTALPHA source dst =
     AssignToAll3 (255 - min (2 * lane3 dst) 255)"
| "GetDestFactor fixB GE_DSTBLEND_FIXB source dst = fixB"
| "GetDestFactor fixB GE_DSTBLEND_UNUSED source dst = fixB"

text \<open>The portable branch (\<open>#else\<close> of \<open>_M_SSE\<close>): one channel of
  \<open>((c * 2 + half) * (factor * 2 + half)) / 1024\<close> with \<open>half = 1\<close>.\<close>

definition blend_mul :: "int \<Rightarrow> int \<Rightarrow> int" where
  "blend_mul c factor = cdiv ((c * 2 + 1) * (factor * 2 + 1)) 1024"

definition AlphaBlendingResult ::
  "int Vec3 \<Rightarrow> int Vec3 \<Rightarrow> PixelFuncID \<Rightarrow> int Vec4 \<Rightarrow> int Vec4 \<Rightarrow> int Vec3" where
  "AlphaBlendingResult fixA fixB pixelID source dst =
    (let srcfactor = GetSourceFactor fixA (AlphaBlendSrc pixelID) source dst;
         dstfactor = GetDestFactor fixB (AlphaBlendDst pixelID) source dst;
         lhs = zip3 blend_mul (rgb source) srcfactor;
         rhs = zip3 blend_mul (rgb dst) dstfactor
     in case AlphaBlendEq pixelID of
          GE_BLENDMODE_MUL_AND_ADD \<Rightarrow> zip3 (+) lhs rhs
        | GE_BLENDMODE_MUL_AND_SUBTRACT \<Rightarrow> zip3 (-) lhs rhs
        | GE_BLENDMODE_MUL_AND_SUBTRACT_REVERSE \<Rightarrow> zip3 (-) rhs lhs
        | GE_BLENDMODE_MIN \<Rightarrow> zip3 min (rgb source) (rgb dst)
        | GE_BLENDMODE_MAX \<Rightarrow> zip3 max (rgb source) (rgb dst)
        | GE_BLENDMODE_ABSDIFF \<Rightarrow> zip3 (\<lambda>s d. \<bar>s - d\<bar>) (rgb source) (rgb dst)
        | GE_BLENDMODE_UNUSED \<Rightarrow> rgb source)"

text \<open>
  The \<open>_M_SSE\<close> branch works on signed 16-bit lanes, embedded as \<open>int\<close> with the
  wrap-around and the saturation written out: \<open>_mm_packs_epi32\<close> saturates a 32-bit lane
  to 16 bits, \<open>_mm_slli_epi16\<close> and \<open>_mm_add_epi16\<close> wrap, \<open>_mm_mulhi_epi16\<close> keeps the
  high half of the signed 32-bit product, \<open>_mm_adds_epi16\<close> and \<open>_mm_subs_epi16\<close> saturate,
  and \<open>_mm_unpacklo_epi16\<close> with zero reads the lane as unsigned.
\<close>

definition wrap16 :: "int \<Rightarrow> int" where
  "wrap16 x = (x + 32768) mod 65536 - 32768"

definition sat16 :: "int \<Rightarrow> int" where
  "sat16 x = max (- 32768) (min 32767 x)"

definition mm_packs_epi32 :: "int \<Rightarrow> int" where
  "mm_packs_epi32 x = sat16 x"

definition mm_slli_epi16 :: "int \<Rightarrow> nat \<Rightarrow> int" where
  "mm_slli_epi16 x n = wrap16 (x * 2 ^ n)"

definition mm_add_epi16 :: "int \<Rightarrow> int \<Rightarrow> int" where
  "mm_add_epi16 x y = wrap16 (x + y)"

definition mm_mulhi_epi16 :: "int \<Rightarrow> int \<Rightarrow> int" where
  "mm_mulhi_epi16 x y = (x * y) div 65536"

definition mm_adds_epi16 :: "int \<Rightarrow> int \<Rightarrow> int" where
  "mm_adds_epi16 x y = sat16 (x + y)"

definition mm_subs_epi16 :: "int \<Rightarrow> int \<Rightarrow> int" where
  "mm_subs_epi16 x y = sat16 (x - y)"

definition mm_max_epi16 :: "int \<Rightarrow> int \<Rightarrow> int" where
  "mm_max_epi16 x y = max x y"

definition mm_unpacklo_epi16_zero :: "int \<Rightarrow> int" where
  "mm_unpacklo_epi16_zero x = x mod 65536"

definition blend_mul_sse :: "int \<Rightarrow> int \<Rightarrow> int" where
  "blend_mul_sse c factor =
    (let half = 2 ^ 3;
         crgb = mm_add_epi16 (mm_slli_epi16 (mm_packs_epi32 c) 4) half;
         cf = mm_add_epi16 (mm_slli_epi16 (mm_packs_epi32 factor) 4) half
     in mm_mulhi_epi16 crgb cf)"

definition AlphaBlendingResult_SSE ::
  "int Vec3 \<Rightarrow> int Vec3 \<Rightarrow> PixelFuncID \<Rightarrow> int Vec4 \<Rightarrow> int Vec4 \<Rightarrow> int Vec3" where
  "AlphaBlendingResult_SSE fixA fixB pixelID source dst =
    (let srcfactor = GetSourceFactor fixA (AlphaBlendSrc pixelID) source dst;
         dstfactor = GetDestFactor fixB (AlphaBlendDst pixelID) source dst;
         s = zip3 blend_mul_sse (rgb source) srcfactor;
         d = zip3 blend_mul_sse (rgb dst) dstfactor
     in case AlphaBlendEq pixelID of
          GE_BLENDMODE_MUL_AND_ADD \<Rightarrow>
            zip3 (\<lambda>s d. mm_unpacklo_epi16_zero (mm_adds_epi16 s d)) s d
        | GE_BLENDMODE_MUL_AND_SUBTRACT \<Rightarrow>
            zip3 (\<lambda>s d. mm_unpacklo_epi16_zero (mm_max_epi16 (mm_subs_epi16 s d) 0)) s d
        | GE_BLENDMODE_MUL_AND_SUBTRACT_REVERSE \<Rightarrow>
            zip3 (\<lambda>s d. mm_unpacklo_epi16_zero (mm_max_epi16 (mm_subs_epi16 d s) 0)) s d
        | GE_BLENDMODE_MIN \<Rightarrow> zip3 min (rgb source) (rgb dst)
        | GE_BLENDMODE_MAX \<Rightarrow> zip3 max (rgb source) (rgb dst)
        | GE_BLENDMODE_ABSDIFF \<Rightarrow> zip3 (\<lambda>s d. \<bar>s - d\<bar>) (rgb source) (rgb dst)
        | GE_BLENDMODE_UNUSED \<Rightarrow> rgb source)"

text \<open>The add equation as the specification words it, for one channel, and the range of
  a clamped colour channel.\<close>

definition blend_add_formula :: "int \<Rightarrow> int \<Rightarrow> int \<Rightarrow> int \<Rightarrow> int" where
  "blend_add_formula src srcFactor dst dstFactor =
     cdiv ((2 * src + 1) * (2 * srcFactor + 1)) 1024 + cdiv ((2 * dst + 1) * (2 * dstFactor + 1)) 1024"

definition blend_add_expected :: "int Vec3 \<Rightarrow> int Vec3 \<Rightarrow> int Vec4 \<Rightarrow> int Vec4 \<Rightarrow> int Vec3" where
  "blend_add_expected srcfactor dstfactor source dst =
     Vec3 (blend_add_formula (lane0 source) (vr srcfactor) (lane0 dst) (vr dstfactor))
          (blend_add_formula (lane1 source) (vg srcfactor) (lane1 dst) (vg dstfactor))
          (blend_add_formula (lane2 source) (vb srcfactor) (lane2 dst) (vb dstfactor))"

definition channel_ok :: "int \<Rightarrow> bool" where
  "channel_ok c = (0 \<le> c \<and> c \<le> 255)"

definition color3_ok :: "int Vec3 \<Rightarrow> bool" where
  "color3_ok c = (channel_ok (vr c) \<and> channel_ok (vg c) \<and> channel_ok (vb c))"

definition color4_ok :: "int Vec4 \<Rightarrow> bool" where
  "color4_ok c = (channel_ok (lane0 c) \<and> channel_ok (lane1 c) \<and> channel_ok (lane2 c) \<and> channel_ok (lane3 c))"

section \<open>Depth test and depth write: \<open>Jit_DepthTest\<close>, \<open>Jit_WriteDepth\<close>, \<open>CompileSingle\<close>\<close>

text \<open>
  The state a compiled pixel function works on: the argument registers for x, y and z, the
  depth buffer as an array of 16-bit values, and the colour framebuffer (kept abstract:
  the stages embedded here do not touch it).  A stage either falls through to the next
  one or takes the jump that \<open>Discard\<close> emits, which leads to the function's exit with the
  memory as it is at that point.
\<close>

record 'fb PixelState =
  argX :: "32 word"
  argY :: "32 word"
  argZ :: "32 word"
  depthbuf :: "32 word \<Rightarrow> 16 word"
  fb :: 'fb

datatype 'a outcome = Continue 'a | Discarded 'a

text \<open>
  \<open>GetDepthOff\<close>: the index of the pixel in the depth buffer, \<open>y * stride + x\<close> in 32-bit
  arithmetic, where the stride is 512 (a shift by 9) under \<open>useStandardStride\<close> and
  \<open>gstate.zbwidth & 0x07FC\<close> otherwise; \<open>LEA\<close> then scales it by 2 onto \<open>depthbuf.data\<close>.
  (With the standard stride and no dithering the source computes the same index inside
  \<open>GetColorOff\<close>.)
\<close>

definition GetDepthOff :: "PixelFuncID \<Rightarrow> 16 word \<Rightarrow> 'fb PixelState \<Rightarrow> 32 word" where
  "GetDepthOff pid zbwidth st =
    (if useStandardStride pid then push_bit 9 (argY st)
     else ucast (zbwidth AND 0x07FC) * argY st) + argX st"

definition Jit_DepthTest ::
  "PixelFuncID \<Rightarrow> 16 word \<Rightarrow> 'fb PixelState \<Rightarrow> 'fb PixelState outcome" where
  "Jit_DepthTest pid zbwidth st =
    (if DepthTestFunc pid = GE_COMP_ALWAYS then Continue st
     else if DepthTestFunc pid = GE_COMP_NEVER then Discarded st
     else
       let fl = CMP (ucast (argZ st) :: 16 word) (depthbuf st (GetDepthOff pid zbwidth st))
       in case DepthTestFunc pid of
            GE_COMP_NEVER \<Rightarrow> Continue st
          | GE_COMP_ALWAYS \<Rightarrow> Continue st
          | GE_COMP_EQUAL \<Rightarrow> if cc_holds CC_NE fl then Discarded st else Continue st
          | GE_COMP_NOTEQUAL \<Rightarrow> if cc_holds CC_E fl then Discarded st else Continue st
          | GE_COMP_LESS \<Rightarrow> if cc_holds CC_AE fl then Discarded st else Continue st
          | GE_COMP_LEQUAL \<Rightarrow> if cc_holds CC_A fl then Discarded st else Continue st
          | GE_COMP_GREATER \<Rightarrow> if cc_holds CC_BE fl then Discarded st else Continue st
          | GE_COMP_GEQUAL \<Rightarrow> if cc_holds CC_B fl then Discarded st else Continue st)"

definition Jit_WriteDepth :: "PixelFuncID \<Rightarrow> 16 word \<Rightarrow> 'fb PixelState \<Rightarrow> 'fb PixelState" where
  "Jit_WriteDepth pid zbwidth st =
    (if depthWrite pid
     then st\<lparr>depthbuf := (depthbuf st)(GetDepthOff pid zbwidth st := ucast (argZ st))\<rparr>
     else st)"

text \<open>
  \<open>CompileSingle\<close> from the depth test on: the stencil-and-depth stage when stencil testing
  is compiled in, else the depth test unless in clear mode; then the depth write; then
  alpha blend, dither and colour write.  The stencil stage and the three colour stages are
  parameters (\<open>stencilAndDepth\<close>, \<open>colorStages\<close>).  The result is the state at the function's
  exit.
\<close>

definition CompileSingle_from_depth ::
  "PixelFuncID \<Rightarrow> 16 word \<Rightarrow> ('fb PixelState \<Rightarrow> 'fb PixelState outcome) \<Rightarrow>
   ('fb PixelState \<Rightarrow> 'fb PixelState) \<Rightarrow> 'fb PixelState \<Rightarrow> 'fb PixelState" where
  "CompileSingle_from_depth pid zbwidth stencilAndDepth colorStages st =
    (case (if stencilTest pid \<and> \<not> clearMode pid then stencilAndDepth st
           else if \<not> clearMode pid then Jit_DepthTest pid zbwidth st
           else Continue st) of
       Discarded st' \<Rightarrow> st'
     | Continue st' \<Rightarrow> colorStages (Jit_WriteDepth pid zbwidth st'))"

text \<open>The comparison the depth test is specified to make between the incoming and the
  stored 16-bit depth.\<close>

fun depth_compare :: "GEComparison \<Rightarrow> 16 word \<Rightarrow> 16 word \<Rightarrow> bool" where
  "depth_compare GE_COMP_NEVER incoming stored = False"
| "depth_compare GE_COMP_ALWAYS incoming stored = True"
| "depth_compare GE_COMP_EQUAL incoming stored = (incoming = stored)"
| "depth_compare GE_COMP_NOTEQUAL incoming stored = (incoming \<noteq> stored)"
| "depth_compare GE_COMP_LESS incoming stored = (incoming < stored)"
| "depth_compare GE_COMP_LEQUAL incoming stored = (incoming \<le> stored)"
| "depth_compare GE_COMP_GREATER incoming stored = (incoming > stored)"
| "depth_compare GE_COMP_GEQUAL incoming stored = (incoming \<ge> stored)"

section \<open>Rasterizer data (the rasterizer source): vertices, configuration, collaborators\<close>

text \<open>
  C \<open>int\<close> values are embedded as \<open>int\<close>, and on the triangle path every addition,
  subtraction and multiplication of the source that is carried out in 32 bits (\<open>int\<close>,
  \<open>Vec4<int>\<close>, \<open>_mm_add_epi32\<close>) is followed by \<open>wrap32\<close>, the value of the result as a
  two's complement 32-bit integer.  The loop counters and bounds of \<open>DrawTriangleSlice\<close>
  are \<open>int64_t\<close> in the source and start from 32-bit values, so they are not wrapped.
  Bitwise operations on \<open>int\<close> are those of two's complement.

  Floating-point values have an abstract type \<open>'f\<close>; the operations on them are the fields
  of a parameter of type \<open>'f fpu\<close>, so every statement proved for all \<open>fpu\<close> holds whatever
  the rounding of the machine is.  \<open>f_bits\<close> is the bit pattern read through the
  \<open>FloatBits\<close> union.  There are two conversions to \<open>int\<close>: \<open>f_to_int\<close> is
  \<open>Cast<int>()\<close>, which truncates; \<open>f_cvtps\<close> is the conversion at the end of \<open>Interpolate\<close>
  on integer colours, which is \<open>_mm_cvtps_epi32\<close> (rounding as the MXCSR says, to nearest by
  default) in the branch \<open>defined(_M_SSE) && !PPSSPP_ARCH(X86)\<close> and \<open>Cast<int>()\<close> in the
  other branch (there \<open>f_cvtps = f_to_int\<close>).
\<close>

record 'f fpu =
  f_of_int :: "int \<Rightarrow> 'f"
  f_to_int :: "'f \<Rightarrow> int"
  f_cvtps :: "'f \<Rightarrow> int"
  f_add :: "'f \<Rightarrow> 'f \<Rightarrow> 'f"
  f_mul :: "'f \<Rightarrow> 'f \<Rightarrow> 'f"
  f_div :: "'f \<Rightarrow> 'f \<Rightarrow> 'f"
  f_le :: "'f \<Rightarrow> 'f \<Rightarrow> bool"
  f_bits :: "'f \<Rightarrow> 32 word"

text \<open>
  A vertex.  \<open>screenpos_x\<close> and \<open>screenpos_y\<close> are the values \<open>(int)v.screenpos.x\<close> and
  \<open>(int)v.screenpos.y\<close>, in subpixels (16 to a pixel); the type of the fields of
  \<open>ScreenCoords\<close> is not part of the rasterizer source.
\<close>

record 'f VertexData =
  screenpos_x :: int
  screenpos_y :: int
  screenpos_z :: int
  color0 :: "int Vec4"
  color1 :: "int Vec3"
  texturecoords :: "'f \<times> 'f"
  fogdepth :: 'f
  clippos_w :: 'f

datatype GEShadeMode = GE_SHADE_FLAT | GE_SHADE_GOURAUD

text \<open>The accessors of \<open>gstate\<close> that the embedded rasterizer functions call.\<close>

record GPUgstate =
  getScissorX1 :: int
  getScissorY1 :: int
  getScissorX2 :: int
  getScissorY2 :: int
  isModeClear :: bool
  getShadeMode :: GEShadeMode
  isFogEnabled :: bool
  isTextureMapEnabled :: bool
  isAntiAliasEnabled :: bool
  isClearModeDepthMask :: bool
  isClearModeColorMask :: bool
  isClearModeAlphaMask :: bool
  getColorMask :: "32 word"
  FrameBufFormat :: GEBufferFormat
  FrameBufStride :: int
  DepthBufStride :: int

text \<open>
  \<open>TransformUnit::DrawingToScreen\<close> and \<open>TransformUnit::ScreenToDrawing\<close> are not part of
  the rasterizer source; they are parameters, on the x and y components.
\<close>

record TransformUnit =
  DrawingToScreen :: "int \<times> int \<Rightarrow> int \<times> int"
  ScreenToDrawing :: "int \<times> int \<Rightarrow> int \<times> int"

text \<open>
  What a draw call does, as the sequence of its calls to collaborators: the resolution of
  the fingerprint and of the compiled functions (\<open>ComputePixelFuncID\<close>,
  \<open>Rasterizer::GetSingleFunc\<close>, \<open>Sampler::GetFuncs\<close>), the start of a
  \<open>DrawTriangleSlice\<close> with its bounds, and each call \<open>drawPixel(x, y, z, fog, color, pixelID)\<close>
  of the compiled pixel function.  The compiled pixel function is the only writer of the
  framebuffer and the depth buffer on the triangle and line paths.
\<close>

datatype event =
  ComputePixelFuncID_call
| GetSingleFunc_call
| GetFuncs_call
| Slice_begin int int int int
| drawPixel_call int int int int "int Vec4"

text \<open>The effect of a sequence of calls on the buffers \<open>'m\<close>, given the compiled function.\<close>

fun apply_event ::
  "(int \<Rightarrow> int \<Rightarrow> int \<Rightarrow> int \<Rightarrow> int Vec4 \<Rightarrow> 'm \<Rightarrow> 'm) \<Rightarrow> 'm \<Rightarrow> event \<Rightarrow> 'm" where
  "apply_event drawPixel m (drawPixel_call x y z fog c) = drawPixel x y z fog c m"
| "apply_event drawPixel m e = m"

definition apply_events ::
  "(int \<Rightarrow> int \<Rightarrow> int \<Rightarrow> int \<Rightarrow> int Vec4 \<Rightarrow> 'm \<Rightarrow> 'm) \<Rightarrow> event list \<Rightarrow> 'm \<Rightarrow> 'm" where
  "apply_events drawPixel evs m = foldl (apply_event drawPixel) m evs"

fun is_resolution :: "event \<Rightarrow> bool" where
  "is_resolution ComputePixelFuncID_call = True"
| "is_resolution GetSingleFunc_call = True"
| "is_resolution GetFuncs_call = True"
| "is_resolution e = False"

fun is_drawPixel :: "event \<Rightarrow> bool" where
  "is_drawPixel (drawPixel_call x y z fog c) = True"
| "is_drawPixel e = False"

text \<open>
  Modelled from the spec: \<open>ParallelRangeLoop\<close> (Common/Thread/ParallelLoop.h) is not among
  the sources.  The specification describes it as the thread pool's parallel range
  primitive, which hands the loop body independent sub-ranges of \<open>[lower, upper)\<close> and
  joins.  The cut points chosen by the pool (from its thread count and the minimum size
  argument) are the parameter \<open>cuts\<close>; the sub-ranges run here one after the other in
  ascending order, and empty sub-ranges are not run.
\<close>

fun ParallelRangeLoop :: "int list \<Rightarrow> (int \<Rightarrow> int \<Rightarrow> 's \<Rightarrow> 's) \<Rightarrow> int \<Rightarrow> int \<Rightarrow> 's \<Rightarrow> 's" where
  "ParallelRangeLoop [] loop lower upper s = (if lower < upper then loop lower upper s else s)"
| "ParallelRangeLoop (c # cuts) loop lower upper s =
     (let c' = max lower (min c upper)
      in ParallelRangeLoop cuts loop c' upper (if lower < c' then loop lower c' s else s))"

section \<open>Triangle traversal: \<open>TriangleEdge\<close>, \<open>MakeMask\<close>, \<open>DrawTriangleSlice\<close>, \<open>DrawTriangle\<close>\<close>

text \<open>
  32-bit arithmetic: \<open>wrap32 x\<close> is the result \<open>x\<close> of an operation as a two's complement
  32-bit value, which is \<open>x\<close> itself when it is in the range from $-2^{31}$ to $2^{31} - 1$
  and \<open>x\<close> reduced modulo $2^{32}$ into that range otherwise.
\<close>

definition wrap32 :: "int \<Rightarrow> int" where
  "wrap32 x = (if - 2147483648 \<le> x \<and> x < 2147483648 then x
               else (x + 2147483648) mod 4294967296 - 2147483648)"

definition add32 :: "int \<Rightarrow> int \<Rightarrow> int" where
  "add32 a b = wrap32 (a + b)"

definition sub32 :: "int \<Rightarrow> int \<Rightarrow> int" where
  "sub32 a b = wrap32 (a - b)"

definition mul32 :: "int \<Rightarrow> int \<Rightarrow> int" where
  "mul32 a b = wrap32 (a * b)"

definition vadd :: "int Vec4 \<Rightarrow> int Vec4 \<Rightarrow> int Vec4" where
  "vadd = lanewise add32"

definition vmul :: "int Vec4 \<Rightarrow> int Vec4 \<Rightarrow> int Vec4" where
  "vmul = lanewise mul32"

definition vor :: "int Vec4 \<Rightarrow> int Vec4 \<Rightarrow> int Vec4" where
  "vor = lanewise (OR)"

fun lane :: "'a Vec4 \<Rightarrow> int \<Rightarrow> 'a" where
  "lane v i = (if i = 0 then lane0 v else if i = 1 then lane1 v else if i = 2 then lane2 v else lane3 v)"

definition xy :: "'f VertexData \<Rightarrow> int \<times> int" where
  "xy v = (screenpos_x v, screenpos_y v)"

definition IsRightSideOrFlatBottomLine :: "int \<times> int \<Rightarrow> int \<times> int \<Rightarrow> int \<times> int \<Rightarrow> bool" where
  "IsRightSideOrFlatBottomLine vertex line1 line2 =
    (if snd line1 = snd line2 then snd vertex < snd line1
     else fst vertex < add32 (fst line1)
                         (cdiv (mul32 (sub32 (fst line2) (fst line1)) (sub32 (snd vertex) (snd line1)))
                               (sub32 (snd line2) (snd line1))))"

record TriangleEdge =
  stepX :: "int Vec4"
  stepY :: "int Vec4"

text \<open>\<open>TriangleEdge::Start\<close>: sets the steps of the edge and returns the edge function at the
  four pixel centres of the quad at \<open>origin\<close>.\<close>

definition TriangleEdge_Start ::
  "int \<times> int \<Rightarrow> int \<times> int \<Rightarrow> int \<times> int \<Rightarrow> TriangleEdge \<times> int Vec4" where
  "TriangleEdge_Start v0 v1 origin =
    (let initX = vadd (AssignToAll (fst origin)) (Vec4 7 23 7 23);
         initY = vadd (AssignToAll (snd origin)) (Vec4 7 7 23 23);
         xf = sub32 (snd v0) (snd v1);
         yf = sub32 (fst v1) (fst v0);
         c = sub32 (mul32 (snd v1) (fst v0)) (mul32 (fst v1) (snd v0))
     in (\<lparr>stepX = AssignToAll (mul32 (mul32 xf 16) 2), stepY = AssignToAll (mul32 (mul32 yf 16) 2)\<rparr>,
         vadd (vadd (vmul (AssignToAll xf) initX) (vmul (AssignToAll yf) initY)) (AssignToAll c)))"

definition StepX :: "TriangleEdge \<Rightarrow> int Vec4 \<Rightarrow> int Vec4" where
  "StepX e w = vadd w (stepX e)"

definition StepY :: "TriangleEdge \<Rightarrow> int Vec4 \<Rightarrow> int Vec4" where
  "StepY e w = vadd w (stepY e)"

definition MakeMask ::
  "int Vec4 \<Rightarrow> int Vec4 \<Rightarrow> int Vec4 \<Rightarrow> int Vec4 \<Rightarrow> int Vec4 \<Rightarrow> int Vec4 \<Rightarrow> int Vec4 \<Rightarrow> int Vec4" where
  "MakeMask w0 w1 w2 bias0 bias1 bias2 scissor =
     vor (vor (vor (vadd w0 bias0) (vadd w1 bias1)) (vadd w2 bias2)) scissor"

definition AnyMask :: "int Vec4 \<Rightarrow> bool" where
  "AnyMask msk = (lane0 msk \<ge> 0 \<or> lane1 msk \<ge> 0 \<or> lane2 msk \<ge> 0 \<or> lane3 msk \<ge> 0)"

definition EdgeRecip :: "'f fpu \<Rightarrow> int Vec4 \<Rightarrow> int Vec4 \<Rightarrow> int Vec4 \<Rightarrow> 'f Vec4" where
  "EdgeRecip fpu w0 w1 w2 =
     map_Vec4 (\<lambda>wsum. f_div fpu (f_of_int fpu 1) (f_of_int fpu wsum)) (vadd (vadd w0 w1) w2)"

text \<open>
  \<open>Interpolate\<close> on integer colours: each component is
  \<open>(c0 * w0 + c1 * w1 + c2 * w2) * wsum\<close> in floating point, converted back to \<open>int\<close>.
  Both branches of the source have this shape; they differ in the conversion, which is
  \<open>f_cvtps\<close>: \<open>_mm_cvtps_epi32\<close> in the one, \<open>Cast<int>()\<close> in the other.
\<close>

definition Interpolate1 :: "'f fpu \<Rightarrow> int \<Rightarrow> int \<Rightarrow> int \<Rightarrow> int \<Rightarrow> int \<Rightarrow> int \<Rightarrow> 'f \<Rightarrow> int" where
  "Interpolate1 fpu c0 c1 c2 w0 w1 w2 wsum =
     f_cvtps fpu (f_mul fpu
       (f_add fpu (f_add fpu (f_mul fpu (f_of_int fpu c0) (f_of_int fpu w0))
                             (f_mul fpu (f_of_int fpu c1) (f_of_int fpu w1)))
                  (f_mul fpu (f_of_int fpu c2) (f_of_int fpu w2)))
       wsum)"

definition Interpolate4 ::
  "'f fpu \<Rightarrow> int Vec4 \<Rightarrow> int Vec4 \<Rightarrow> int Vec4 \<Rightarrow> int \<Rightarrow> int \<Rightarrow> int \<Rightarrow> 'f \<Rightarrow> int Vec4" where
  "Interpolate4 fpu c0 c1 c2 w0 w1 w2 wsum =
     Vec4 (Interpolate1 fpu (lane0 c0) (lane0 c1) (lane0 c2) w0 w1 w2 wsum)
          (Interpolate1 fpu (lane1 c0) (lane1 c1) (lane1 c2) w0 w1 w2 wsum)
          (Interpolate1 fpu (lane2 c0) (lane2 c1) (lane2 c2) w0 w1 w2 wsum)
          (Interpolate1 fpu (lane3 c0) (lane3 c1) (lane3 c2) w0 w1 w2 wsum)"

definition Interpolate3 ::
  "'f fpu \<Rightarrow> int Vec3 \<Rightarrow> int Vec3 \<Rightarrow> int Vec3 \<Rightarrow> int \<Rightarrow> int \<Rightarrow> int \<Rightarrow> 'f \<Rightarrow> int Vec3" where
  "Interpolate3 fpu c0 c1 c2 w0 w1 w2 wsum =
     Vec3 (Interpolate1 fpu (vr c0) (vr c1) (vr c2) w0 w1 w2 wsum)
          (Interpolate1 fpu (vg c0) (vg c1) (vg c2) w0 w1 w2 wsum)
          (Interpolate1 fpu (vb c0) (vb c1) (vb c2) w0 w1 w2 wsum)"

text \<open>\<open>ClampFogDepth\<close>, on the bit pattern of its argument.\<close>

definition ClampFogDepth :: "32 word \<Rightarrow> int" where
  "ClampFogDepth u =
    (let exponent = drop_bit 23 u
     in if u AND 0x80000000 \<noteq> 0 \<or> exponent \<le> 126 - 8 then 0
        else if exponent > 126 then 255
        else let mantissa = (u AND 0x007FFFFF) OR 0x00800000
             in uint (ucast (drop_bit (16 + 126 - unat exponent) mantissa) :: 8 word))"

text \<open>The flags \<open>DrawTriangleSlice\<close> computes once per slice.\<close>

definition flatZ :: "'f VertexData \<Rightarrow> 'f VertexData \<Rightarrow> 'f VertexData \<Rightarrow> bool" where
  "flatZ v0 v1 v2 = (screenpos_z v0 = screenpos_z v1 \<and> screenpos_z v0 = screenpos_z v2)"

definition flatColorAll :: "GPUgstate \<Rightarrow> bool \<Rightarrow> bool" where
  "flatColorAll gstate clearmode = (clearmode \<or> getShadeMode gstate \<noteq> GE_SHADE_GOURAUD)"

definition flatColor0 ::
  "GPUgstate \<Rightarrow> bool \<Rightarrow> 'f VertexData \<Rightarrow> 'f VertexData \<Rightarrow> 'f VertexData \<Rightarrow> bool" where
  "flatColor0 gstate clearmode v0 v1 v2 =
     (flatColorAll gstate clearmode \<or> (color0 v0 = color0 v1 \<and> color0 v0 = color0 v2))"

definition flatColor1 ::
  "GPUgstate \<Rightarrow> bool \<Rightarrow> 'f VertexData \<Rightarrow> 'f VertexData \<Rightarrow> 'f VertexData \<Rightarrow> bool" where
  "flatColor1 gstate clearmode v0 v1 v2 =
     (flatColorAll gstate clearmode \<or> (color1 v0 = color1 v1 \<and> color1 v0 = color1 v2))"

definition noFog ::
  "'f fpu \<Rightarrow> GPUgstate \<Rightarrow> bool \<Rightarrow> 'f VertexData \<Rightarrow> 'f VertexData \<Rightarrow> 'f VertexData \<Rightarrow> bool" where
  "noFog fpu gstate clearmode v0 v1 v2 =
     (clearmode \<or> \<not> isFogEnabled gstate \<or>
      (f_le fpu (f_of_int fpu 1) (fogdepth v0) \<and> f_le fpu (f_of_int fpu 1) (fogdepth v1) \<and>
       f_le fpu (f_of_int fpu 1) (fogdepth v2)))"

text \<open>
  The texture path of a quad (texture coordinates, \<open>CalculateSamplingParams\<close> and the calls
  of the resolved sampler functions through \<open>ApplyTexturing\<close>) is a parameter: it takes
  the vertices, the weights, their reciprocal sum, the mask, the quad position and the
  four primary colours, and returns the four primary colours.
\<close>

type_synonym 'f texturing =
  "'f VertexData \<Rightarrow> 'f VertexData \<Rightarrow> 'f VertexData \<Rightarrow> int Vec4 \<Rightarrow> int Vec4 \<Rightarrow> int Vec4 \<Rightarrow>
   'f Vec4 \<Rightarrow> int Vec4 \<Rightarrow> int \<Rightarrow> int \<Rightarrow> int Vec4 Vec4 \<Rightarrow> int Vec4 Vec4"

definition lanes4 :: "(int \<Rightarrow> 'a) \<Rightarrow> 'a Vec4" where
  "lanes4 f = Vec4 (f 0) (f 1) (f 2) (f 3)"

text \<open>
  The attributes of the four pixels of a quad.  Where the source assigns a lane only
  under \<open>mask[i] >= 0\<close>, the embedding computes the same expression for every lane; the
  other lanes are never passed to \<open>drawPixel\<close>.
\<close>

definition quad_prim_color ::
  "'f fpu \<Rightarrow> GPUgstate \<Rightarrow> bool \<Rightarrow> 'f VertexData \<Rightarrow> 'f VertexData \<Rightarrow> 'f VertexData \<Rightarrow>
   int Vec4 \<Rightarrow> int Vec4 \<Rightarrow> int Vec4 \<Rightarrow> 'f Vec4 \<Rightarrow> int Vec4 Vec4" where
  "quad_prim_color fpu gstate clearmode v0 v1 v2 w0 w1 w2 wsum_recip =
    (if \<not> flatColor0 gstate clearmode v0 v1 v2
     then lanes4 (\<lambda>i. Interpolate4 fpu (color0 v0) (color0 v1) (color0 v2)
                        (lane w0 i) (lane w1 i) (lane w2 i) (lane wsum_recip i))
     else lanes4 (\<lambda>i. color0 v2))"

definition quad_sec_color ::
  "'f fpu \<Rightarrow> GPUgstate \<Rightarrow> bool \<Rightarrow> 'f VertexData \<Rightarrow> 'f VertexData \<Rightarrow> 'f VertexData \<Rightarrow>
   int Vec4 \<Rightarrow> int Vec4 \<Rightarrow> int Vec4 \<Rightarrow> 'f Vec4 \<Rightarrow> int Vec3 Vec4" where
  "quad_sec_color fpu gstate clearmode v0 v1 v2 w0 w1 w2 wsum_recip =
    (if \<not> flatColor1 gstate clearmode v0 v1 v2
     then lanes4 (\<lambda>i. Interpolate3 fpu (color1 v0) (color1 v1) (color1 v2)
                        (lane w0 i) (lane w1 i) (lane w2 i) (lane wsum_recip i))
     else lanes4 (\<lambda>i. color1 v2))"

definition interpolated_fogdepth ::
  "'f fpu \<Rightarrow> 'f VertexData \<Rightarrow> 'f VertexData \<Rightarrow> 'f VertexData \<Rightarrow> int \<Rightarrow> int \<Rightarrow> int \<Rightarrow> 'f \<Rightarrow> 'f" where
  "interpolated_fogdepth fpu v0 v1 v2 w0 w1 w2 wsum_recip =
     f_mul fpu
       (f_add fpu (f_add fpu (f_mul fpu (f_of_int fpu w0) (fogdepth v0))
                             (f_mul fpu (f_of_int fpu w1) (fogdepth v1)))
                  (f_mul fpu (f_of_int fpu w2) (fogdepth v2)))
       wsum_recip"

definition quad_fog ::
  "'f fpu \<Rightarrow> GPUgstate \<Rightarrow> bool \<Rightarrow> 'f VertexData \<Rightarrow> 'f VertexData \<Rightarrow> 'f VertexData \<Rightarrow>
   int Vec4 \<Rightarrow> int Vec4 \<Rightarrow> int Vec4 \<Rightarrow> 'f Vec4 \<Rightarrow> int Vec4" where
  "quad_fog fpu gstate clearmode v0 v1 v2 w0 w1 w2 wsum_recip =
    (if \<not> noFog fpu gstate clearmode v0 v1 v2
     then lanes4 (\<lambda>i. ClampFogDepth (f_bits fpu
            (interpolated_fogdepth fpu v0 v1 v2 (lane w0 i) (lane w1 i) (lane w2 i) (lane wsum_recip i))))
     else AssignToAll 255)"

definition interpolated_z ::
  "'f fpu \<Rightarrow> 'f VertexData \<Rightarrow> 'f VertexData \<Rightarrow> 'f VertexData \<Rightarrow> int \<Rightarrow> int \<Rightarrow> int \<Rightarrow> 'f \<Rightarrow> int" where
  "interpolated_z fpu v0 v1 v2 w0 w1 w2 wsum_recip =
     f_to_int fpu (f_mul fpu
       (f_add fpu (f_add fpu (f_mul fpu (f_of_int fpu w0) (f_of_int fpu (screenpos_z v0)))
                             (f_mul fpu (f_of_int fpu w1) (f_of_int fpu (screenpos_z v1))))
                  (f_mul fpu (f_of_int fpu w2) (f_of_int fpu (screenpos_z v2))))
       wsum_recip)"

definition quad_z ::
  "'f fpu \<Rightarrow> 'f VertexData \<Rightarrow> 'f VertexData \<Rightarrow> 'f VertexData \<Rightarrow>
   int Vec4 \<Rightarrow> int Vec4 \<Rightarrow> int Vec4 \<Rightarrow> 'f Vec4 \<Rightarrow> int Vec4" where
  "quad_z fpu v0 v1 v2 w0 w1 w2 wsum_recip =
    (if flatZ v0 v1 v2 then AssignToAll (screenpos_z v2)
     else lanes4 (\<lambda>i. interpolated_z fpu v0 v1 v2 (lane w0 i) (lane w1 i) (lane w2 i) (lane wsum_recip i)))"

definition add_sec_color :: "int Vec4 \<Rightarrow> int Vec3 \<Rightarrow> int Vec4" where
  "add_sec_color p c = Vec4 (lane0 p + vr c) (lane1 p + vg c) (lane2 p + vb c) (lane3 p + 0)"

text \<open>The final loop over the lanes of a quad: a lane with a negative mask is skipped,
  every other lane is one call of the compiled pixel function.\<close>

definition quad_draw ::
  "int \<Rightarrow> int \<Rightarrow> int Vec4 \<Rightarrow> int Vec4 \<Rightarrow> int Vec4 \<Rightarrow> int Vec4 Vec4 \<Rightarrow> event list" where
  "quad_draw px py msk z fog prim_color =
     concat (map (\<lambda>i. if lane msk i < 0 then []
                       else [drawPixel_call (px + (i AND 1)) (py + cdiv i 2)
                               (lane z i) (lane fog i) (lane prim_color i)])
                 [0, 1, 2, 3])"

text \<open>What is fixed during a slice.\<close>

record 'f slice =
  s_fpu :: "'f fpu"
  s_tex :: "'f texturing"
  s_tu :: TransformUnit
  s_gstate :: GPUgstate
  s_clear :: bool
  s_v0 :: "'f VertexData"
  s_v1 :: "'f VertexData"
  s_v2 :: "'f VertexData"
  s_bias0 :: "int Vec4"
  s_bias1 :: "int Vec4"
  s_bias2 :: "int Vec4"
  s_e0 :: TriangleEdge
  s_e1 :: TriangleEdge
  s_e2 :: TriangleEdge
  s_minX :: int
  s_maxX :: int
  s_maxY :: int

text \<open>The body of the inner loop of \<open>DrawTriangleSlice\<close>, for the quad at \<open>(curX, curY)\<close>.\<close>

definition DrawTriangleSlice_quad ::
  "'f slice \<Rightarrow> int \<Rightarrow> int \<Rightarrow> int Vec4 \<Rightarrow> int Vec4 \<Rightarrow> int Vec4 \<Rightarrow> int Vec4 \<Rightarrow> int \<Rightarrow> int \<Rightarrow> event list" where
  "DrawTriangleSlice_quad sl curY curX w0 w1 w2 scissor_mask px py =
    (let msk = MakeMask w0 w1 w2 (s_bias0 sl) (s_bias1 sl) (s_bias2 sl) scissor_mask
     in if AnyMask msk then
          let wsum_recip = EdgeRecip (s_fpu sl) w0 w1 w2;
              prim_color = quad_prim_color (s_fpu sl) (s_gstate sl) (s_clear sl)
                              (s_v0 sl) (s_v1 sl) (s_v2 sl) w0 w1 w2 wsum_recip;
              sec_color = quad_sec_color (s_fpu sl) (s_gstate sl) (s_clear sl)
                              (s_v0 sl) (s_v1 sl) (s_v2 sl) w0 w1 w2 wsum_recip;
              prim_color = (if isTextureMapEnabled (s_gstate sl) \<and> \<not> s_clear sl
                            then s_tex sl (s_v0 sl) (s_v1 sl) (s_v2 sl) w0 w1 w2 wsum_recip msk
                                   curX curY prim_color
                            else prim_color);
              prim_color = (if \<not> s_clear sl then lanewise add_sec_color prim_color sec_color
                            else prim_color);
              fog = quad_fog (s_fpu sl) (s_gstate sl) (s_clear sl)
                       (s_v0 sl) (s_v1 sl) (s_v2 sl) w0 w1 w2 wsum_recip;
              z = quad_z (s_fpu sl) (s_v0 sl) (s_v1 sl) (s_v2 sl) w0 w1 w2 wsum_recip
          in quad_draw px py msk z fog prim_color
        else [])"

text \<open>The inner loop: \<open>curX\<close> from \<open>minX\<close> to \<open>maxX\<close> in steps of 32 subpixels (two pixels).\<close>

function DrawTriangleSlice_row ::
  "'f slice \<Rightarrow> int \<Rightarrow> int \<Rightarrow> int Vec4 \<Rightarrow> int Vec4 \<Rightarrow> int Vec4 \<Rightarrow> int Vec4 \<Rightarrow> int \<Rightarrow> int \<Rightarrow> event list" where
  "DrawTriangleSlice_row sl curY curX w0 w1 w2 scissor_mask px py =
    (if curX \<le> s_maxX sl
     then DrawTriangleSlice_quad sl curY curX w0 w1 w2 scissor_mask px py @
          DrawTriangleSlice_row sl curY (curX + 32)
            (StepX (s_e0 sl) w0) (StepX (s_e1 sl) w1) (StepX (s_e2 sl) w2)
            (vadd scissor_mask (Vec4 0 (- 32) 0 (- 32))) ((px + 2) AND 0x3FF) py
     else [])"
  by pat_completeness auto
termination
  by (relation "measure (\<lambda>(sl, curY, curX, w0, w1, w2, sm, px, py). nat (s_maxX sl - curX + 1))") auto

text \<open>The outer loop: \<open>curY\<close> from \<open>minY\<close> to \<open>maxY\<close> in steps of 32 subpixels.\<close>

function DrawTriangleSlice_rows ::
  "'f slice \<Rightarrow> int \<Rightarrow> int Vec4 \<Rightarrow> int Vec4 \<Rightarrow> int Vec4 \<Rightarrow> event list" where
  "DrawTriangleSlice_rows sl curY w0_base w1_base w2_base =
    (if curY \<le> s_maxY sl
     then (let scissorYPlus1 = (if curY + 16 > s_maxY sl then - 1 else 0);
               scissor_mask = Vec4 0 (wrap32 (s_maxX sl - s_minX sl - 16)) scissorYPlus1
                                   (wrap32 ((s_maxX sl - s_minX sl - 16) OR scissorYPlus1));
               p = ScreenToDrawing (s_tu sl) (s_minX sl, curY)
           in DrawTriangleSlice_row sl curY (s_minX sl) w0_base w1_base w2_base scissor_mask
                (fst p) (snd p)) @
          DrawTriangleSlice_rows sl (curY + 32)
            (StepY (s_e0 sl) w0_base) (StepY (s_e1 sl) w1_base) (StepY (s_e2 sl) w2_base)
     else [])"
  by pat_completeness auto
termination
  by (relation "measure (\<lambda>(sl, curY, w0, w1, w2). nat (s_maxY sl - curY + 1))") auto

definition DrawTriangleSlice ::
  "'f fpu \<Rightarrow> 'f texturing \<Rightarrow> TransformUnit \<Rightarrow> GPUgstate \<Rightarrow> bool \<Rightarrow>
   'f VertexData \<Rightarrow> 'f VertexData \<Rightarrow> 'f VertexData \<Rightarrow> int \<Rightarrow> int \<Rightarrow> int \<Rightarrow> int \<Rightarrow> event list" where
  "DrawTriangleSlice fpu tex tu gstate clearmode v0 v1 v2 x1 y1 x2 y2 =
    (let bias0 = AssignToAll (if IsRightSideOrFlatBottomLine (xy v0) (xy v1) (xy v2) then - 1 else 0);
         bias1 = AssignToAll (if IsRightSideOrFlatBottomLine (xy v1) (xy v2) (xy v0) then - 1 else 0);
         bias2 = AssignToAll (if IsRightSideOrFlatBottomLine (xy v2) (xy v0) (xy v1) then - 1 else 0);
         minX = x1; maxX = x2; minY = y1; maxY = y2;
         pprime = (minX, minY);
         (e0, w0_base) = TriangleEdge_Start (xy v1) (xy v2) pprime;
         (e1, w1_base) = TriangleEdge_Start (xy v2) (xy v0) pprime;
         (e2, w2_base) = TriangleEdge_Start (xy v0) (xy v1) pprime
     in DrawTriangleSlice_rows
          \<lparr>s_fpu = fpu, s_tex = tex, s_tu = tu, s_gstate = gstate, s_clear = clearmode,
           s_v0 = v0, s_v1 = v1, s_v2 = v2, s_bias0 = bias0, s_bias1 = bias1, s_bias2 = bias2,
           s_e0 = e0, s_e1 = e1, s_e2 = e2, s_minX = minX, s_maxX = maxX, s_maxY = maxY\<rparr>
          minY w0_base w1_base w2_base)"

text \<open>
  \<open>DrawTriangle\<close>.  \<open>cuts\<close> are the cut points of the thread pool for this call.  A slice,
  run by a worker or by the caller, appends its own calls to those made so far.
\<close>

definition drawSlice ::
  "'f fpu \<Rightarrow> 'f texturing \<Rightarrow> TransformUnit \<Rightarrow> GPUgstate \<Rightarrow>
   'f VertexData \<Rightarrow> 'f VertexData \<Rightarrow> 'f VertexData \<Rightarrow> int \<Rightarrow> int \<Rightarrow> int \<Rightarrow> int \<Rightarrow>
   event list \<Rightarrow> event list" where
  "drawSlice fpu tex tu gstate v0 v1 v2 x1 y1 x2 y2 calls =
     calls @ Slice_begin x1 y1 x2 y2 #
       DrawTriangleSlice fpu tex tu gstate (isModeClear gstate) v0 v1 v2 x1 y1 x2 y2"

definition DrawTriangle ::
  "'f fpu \<Rightarrow> 'f texturing \<Rightarrow> TransformUnit \<Rightarrow> GPUgstate \<Rightarrow> int list \<Rightarrow>
   'f VertexData \<Rightarrow> 'f VertexData \<Rightarrow> 'f VertexData \<Rightarrow> event list" where
  "DrawTriangle fpu tex tu gstate cuts v0 v1 v2 =
    (let d01 = (sub32 (screenpos_x v0) (screenpos_x v1), sub32 (screenpos_y v0) (screenpos_y v1));
         d02 = (sub32 (screenpos_x v0) (screenpos_x v2), sub32 (screenpos_y v0) (screenpos_y v2))
     in if sub32 (mul32 (fst d01) (snd d02)) (mul32 (snd d01) (fst d02)) < 0 then []
        else if fst d01 = 0 \<and> snd d01 = 0 \<and> fst d02 = 0 \<and> snd d02 = 0 then []
        else
          let minX = min (min (screenpos_x v0) (screenpos_x v1)) (screenpos_x v2) AND NOT 0xF;
              minY = min (min (screenpos_y v0) (screenpos_y v1)) (screenpos_y v2) AND NOT 0xF;
              maxX = max (max (screenpos_x v0) (screenpos_x v1)) (screenpos_x v2) OR 0xF;
              maxY = max (max (screenpos_y v0) (screenpos_y v1)) (screenpos_y v2) OR 0xF;
              scissorTL = (getScissorX1 gstate, getScissorY1 gstate);
              scissorBR = (getScissorX2 gstate, getScissorY2 gstate);
              minX = max minX (fst (DrawingToScreen tu scissorTL));
              maxX = min maxX (add32 (fst (DrawingToScreen tu scissorBR)) 15);
              minY = max minY (snd (DrawingToScreen tu scissorTL));
              maxY = min maxY (add32 (snd (DrawingToScreen tu scissorBR)) 15)
          in if maxX < minX \<or> maxY < minY then []
             else
               let rangeY = cdiv (add32 (sub32 maxY minY) 31) 32;
                   rangeX = cdiv (add32 (sub32 maxX minX) 31) 32;
                   resolved = [ComputePixelFuncID_call, GetSingleFunc_call, GetFuncs_call]
               in if rangeY \<ge> 12 \<and> rangeX \<ge> mul32 rangeY 4 then
                    ParallelRangeLoop cuts
                      (\<lambda>a b. drawSlice fpu tex tu gstate v0 v1 v2
                                (add32 minX (mul32 (mul32 a 16) 2)) minY
                                (min maxX (sub32 (add32 minX (mul32 (mul32 b 16) 2)) 1)) maxY)
                      0 rangeX resolved
                  else if rangeY \<ge> 12 \<and> rangeX \<ge> 12 then
                    ParallelRangeLoop cuts
                      (\<lambda>a b. drawSlice fpu tex tu gstate v0 v1 v2
                                minX (add32 minY (mul32 (mul32 a 16) 2)) maxX
                                (min maxY (sub32 (add32 minY (mul32 (mul32 b 16) 2)) 1)))
                      0 rangeY resolved
                  else drawSlice fpu tex tu gstate v0 v1 v2 minX minY maxX maxY resolved)"

text \<open>A stand-in for the floating-point unit with exact rational arithmetic, for evaluating
  examples whose outcome does not depend on the rounding of the arithmetic or on bit
  patterns.  \<open>f_to_int\<close> truncates towards zero; \<open>f_cvtps\<close> rounds to the nearest integer,
  a tie to the even one.\<close>

definition round_nearest_even :: "rat \<Rightarrow> int" where
  "round_nearest_even x =
    (let n = \<lfloor>x\<rfloor>; d = x - of_int n
     in if d < 1 / 2 then n else if 1 / 2 < d then n + 1 else if even n then n else n + 1)"

definition exact_fpu :: "rat fpu" where
  "exact_fpu = \<lparr>f_of_int = of_int, f_to_int = (\<lambda>x. sgn \<lfloor>x\<rfloor> * \<lfloor>\<bar>x\<bar>\<rfloor>),
                 f_cvtps = round_nearest_even, f_add = (+), f_mul = (*),
                 f_div = (/), f_le = (\<le>), f_bits = (\<lambda>x. 0)\<rparr>"

definition no_texturing :: "'f texturing" where
  "no_texturing v0 v1 v2 w0 w1 w2 wsum_recip msk curX curY prim_color = prim_color"

text \<open>
  Modelled from the spec: \<open>TransformUnit\<close> (GPU/Software/TransformUnit.h) is not among the
  sources.  The specification gives screen positions as fixed point with 4 subpixel bits;
  \<open>offset_tu ox oy\<close> is the conversion between whole pixels of the drawing area and screen
  positions for a screen offset of \<open>(ox, oy)\<close> subpixels, the pixel index being kept to 10
  bits.
\<close>

definition offset_tu :: "int \<Rightarrow> int \<Rightarrow> TransformUnit" where
  "offset_tu ox oy =
     \<lparr>DrawingToScreen = (\<lambda>(x, y). (x * 16 + ox, y * 16 + oy)),
      ScreenToDrawing = (\<lambda>(x, y). (cdiv (x - ox) 16 AND 0x3FF, cdiv (y - oy) 16 AND 0x3FF))\<rparr>"

section \<open>Lines: \<open>DrawLine\<close>\<close>

text \<open>
  The texture path of a line pixel (texture coordinates, \<open>CalculateSamplingParams\<close>,
  \<open>ApplyTexturingSingle\<close>) is a parameter, as for triangles: it takes the vertices, the step
  count, the step, the increments, the current position and the primary colour, and returns
  the primary colour.  \<open>float\<close> and \<open>double\<close> values are both of the abstract type \<open>'f\<close>.
\<close>

type_synonym 'f line_texturing =
  "'f VertexData \<Rightarrow> 'f VertexData \<Rightarrow> int \<Rightarrow> int \<Rightarrow> 'f \<Rightarrow> 'f \<Rightarrow> 'f \<Rightarrow> 'f \<Rightarrow> 'f \<Rightarrow> int Vec4 \<Rightarrow> int Vec4"

definition DrawLine_steps :: "'f VertexData \<Rightarrow> 'f VertexData \<Rightarrow> int" where
  "DrawLine_steps v0 v1 =
    (let dx = screenpos_x v1 - screenpos_x v0;
         dy = screenpos_y v1 - screenpos_y v0
     in if \<bar>dx\<bar> < \<bar>dy\<bar> then cdiv \<bar>dy\<bar> 16 else cdiv \<bar>dx\<bar> 16)"

text \<open>What is fixed during the loop of \<open>DrawLine\<close>.\<close>

record 'f line =
  l_fpu :: "'f fpu"
  l_tex :: "'f line_texturing"
  l_tu :: TransformUnit
  l_gstate :: GPUgstate
  l_pixelID :: PixelFuncID
  l_v0 :: "'f VertexData"
  l_v1 :: "'f VertexData"
  l_steps :: int
  l_steps1 :: int
  l_xinc :: 'f
  l_yinc :: 'f
  l_zinc :: 'f
  l_scissorTL :: "int \<times> int"
  l_scissorBR :: "int \<times> int"

definition mix_channel :: "int \<Rightarrow> int \<Rightarrow> int \<Rightarrow> int \<Rightarrow> int \<Rightarrow> int" where
  "mix_channel c0 c1 steps i steps1 = cdiv (c0 * (steps - i) + c1 * i) steps1"

text \<open>The body of the loop of \<open>DrawLine\<close> for step \<open>i\<close> at position \<open>(x, y, z)\<close>.\<close>

definition DrawLine_step :: "'f line \<Rightarrow> int \<Rightarrow> 'f \<Rightarrow> 'f \<Rightarrow> 'f \<Rightarrow> event list" where
  "DrawLine_step lin i x y z =
    (let fpu = l_fpu lin; gstate = l_gstate lin; v0 = l_v0 lin; v1 = l_v1 lin;
         steps = l_steps lin; steps1 = l_steps1 lin
     in if f_le fpu (f_of_int fpu (fst (l_scissorTL lin))) x \<and>
           f_le fpu (f_of_int fpu (snd (l_scissorTL lin))) y \<and>
           f_le fpu x (f_of_int fpu (fst (l_scissorBR lin))) \<and>
           f_le fpu y (f_of_int fpu (snd (l_scissorBR lin)))
        then
          let prim_color =
                (if getShadeMode gstate = GE_SHADE_GOURAUD
                 then Vec4 (mix_channel (lane0 (color0 v0)) (lane0 (color0 v1)) steps i steps1)
                           (mix_channel (lane1 (color0 v0)) (lane1 (color0 v1)) steps i steps1)
                           (mix_channel (lane2 (color0 v0)) (lane2 (color0 v1)) steps i steps1)
                           (mix_channel (lane3 (color0 v0)) (lane3 (color0 v1)) steps i steps1)
                 else color0 v1);
              sec_color =
                (if getShadeMode gstate = GE_SHADE_GOURAUD
                 then Vec3 (mix_channel (vr (color1 v0)) (vr (color1 v1)) steps i steps1)
                           (mix_channel (vg (color1 v0)) (vg (color1 v1)) steps i steps1)
                           (mix_channel (vb (color1 v0)) (vb (color1 v1)) steps i steps1)
                 else color1 v1);
              fog = (if isFogEnabled gstate \<and> \<not> clearMode (l_pixelID lin)
                     then ClampFogDepth (f_bits fpu
                            (f_div fpu
                               (f_add fpu (f_mul fpu (fogdepth v0) (f_of_int fpu (steps - i)))
                                          (f_mul fpu (fogdepth v1) (f_of_int fpu i)))
                               (f_of_int fpu steps1)))
                     else 255);
              prim_color = (if isAntiAliasEnabled gstate
                            then Vec4 (lane0 prim_color) (lane1 prim_color) (lane2 prim_color) 0x7F
                            else prim_color);
              prim_color = (if isTextureMapEnabled gstate \<and> \<not> clearMode (l_pixelID lin)
                            then l_tex lin v0 v1 steps i (l_xinc lin) (l_yinc lin) x y z prim_color
                            else prim_color);
              prim_color = (if \<not> clearMode (l_pixelID lin) then add_sec_color prim_color sec_color
                            else prim_color);
              p = ScreenToDrawing (l_tu lin) (f_to_int fpu x, f_to_int fpu y)
          in [drawPixel_call (fst p) (snd p) (f_to_int fpu z) fog prim_color]
        else [])"

function DrawLine_loop :: "'f line \<Rightarrow> int \<Rightarrow> 'f \<Rightarrow> 'f \<Rightarrow> 'f \<Rightarrow> event list" where
  "DrawLine_loop lin i x y z =
    (if i < l_steps lin
     then DrawLine_step lin i x y z @
          DrawLine_loop lin (i + 1) (f_add (l_fpu lin) x (l_xinc lin)) (f_add (l_fpu lin) y (l_yinc lin))
            (f_add (l_fpu lin) z (l_zinc lin))
     else [])"
  by pat_completeness auto
termination
  by (relation "measure (\<lambda>(lin, i, x, y, z). nat (l_steps lin - i))") auto

text \<open>\<open>pixelID\<close> is the fingerprint that \<open>ComputePixelFuncID\<close> fills in.\<close>

definition DrawLine ::
  "'f fpu \<Rightarrow> 'f line_texturing \<Rightarrow> TransformUnit \<Rightarrow> GPUgstate \<Rightarrow> PixelFuncID \<Rightarrow>
   'f VertexData \<Rightarrow> 'f VertexData \<Rightarrow> event list" where
  "DrawLine fpu tex tu gstate pixelID v0 v1 =
    (let a = (screenpos_x v0, screenpos_y v0, screenpos_z v0);
         b = (screenpos_x v1, screenpos_y v1, screenpos_z v0);
         dx = fst b - fst a;
         dy = fst (snd b) - fst (snd a);
         dz = snd (snd b) - snd (snd a);
         steps = DrawLine_steps v0 v1;
         dx = (if dx < 0 \<and> dx \<ge> - 16 then dx + 1 else dx);
         dy = (if dy < 0 \<and> dy \<ge> - 16 then dy + 1 else dy);
         xinc = f_div fpu (f_of_int fpu dx) (f_of_int fpu steps);
         yinc = f_div fpu (f_of_int fpu dy) (f_of_int fpu steps);
         zinc = f_div fpu (f_of_int fpu dz) (f_of_int fpu steps);
         scissorTL = DrawingToScreen tu (getScissorX1 gstate, getScissorY1 gstate);
         scissorBR = DrawingToScreen tu (getScissorX2 gstate, getScissorY2 gstate);
         scissorBR = (fst scissorBR + 15, snd scissorBR + 15);
         x = f_of_int fpu (if fst a > fst b then fst a - 1 else fst a);
         y = f_of_int fpu (if fst (snd a) > fst (snd b) then fst (snd a) - 1 else fst (snd a));
         z = f_of_int fpu (snd (snd a));
         steps1 = (if steps = 0 then 1 else steps)
     in [ComputePixelFuncID_call, GetFuncs_call, GetSingleFunc_call] @
        DrawLine_loop
          \<lparr>l_fpu = fpu, l_tex = tex, l_tu = tu, l_gstate = gstate, l_pixelID = pixelID,
           l_v0 = v0, l_v1 = v1, l_steps = steps, l_steps1 = steps1,
           l_xinc = xinc, l_yinc = yinc, l_zinc = zinc,
           l_scissorTL = scissorTL, l_scissorBR = scissorBR\<rparr>
          0 x y z)"

definition no_line_texturing :: "'f line_texturing" where
  "no_line_texturing v0 v1 steps i xinc yinc x y z prim_color = prim_color"

section \<open>Rectangle clear: \<open>ClearRectangle\<close>\<close>

text \<open>
  Modelled from the spec: the buffer accessors \<open>Set16\<close>, \<open>Get16\<close>, \<open>Set32\<close>, \<open>Get32\<close>,
  \<open>Get16Ptr\<close> and \<open>Get32Ptr\<close> of \<open>fb\<close> and \<open>depthbuf\<close> (SoftGpu.h) are not among the
  sources.  The specification describes the buffers as linear, row-major memory addressed
  by (x, y, stride), with 16-bit or 32-bit pixels for colour and 16-bit values for depth.
  A buffer is its bytes, indexed from its base address; the element at \<open>(x, y)\<close> is element
  \<open>x + y * stride\<close>, stored little-endian.
\<close>

type_synonym bytes = "int \<Rightarrow> 8 word"

record buffers =
  fbmem :: bytes
  depthmem :: bytes

definition Set16 :: "bytes \<Rightarrow> int \<Rightarrow> int \<Rightarrow> int \<Rightarrow> 16 word \<Rightarrow> bytes" where
  "Set16 mem x y stride v =
     mem(2 * (x + y * stride) := ucast v, 2 * (x + y * stride) + 1 := ucast (drop_bit 8 v))"

definition Get16 :: "bytes \<Rightarrow> int \<Rightarrow> int \<Rightarrow> int \<Rightarrow> 16 word" where
  "Get16 mem x y stride =
     ucast (mem (2 * (x + y * stride))) OR push_bit 8 (ucast (mem (2 * (x + y * stride) + 1)))"

definition Set32 :: "bytes \<Rightarrow> int \<Rightarrow> int \<Rightarrow> int \<Rightarrow> 32 word \<Rightarrow> bytes" where
  "Set32 mem x y stride v =
     mem(4 * (x + y * stride) := ucast v, 4 * (x + y * stride) + 1 := ucast (drop_bit 8 v),
         4 * (x + y * stride) + 2 := ucast (drop_bit 16 v),
         4 * (x + y * stride) + 3 := ucast (drop_bit 24 v))"

definition Get32 :: "bytes \<Rightarrow> int \<Rightarrow> int \<Rightarrow> int \<Rightarrow> 32 word" where
  "Get32 mem x y stride =
     ucast (mem (4 * (x + y * stride))) OR push_bit 8 (ucast (mem (4 * (x + y * stride) + 1)))
     OR push_bit 16 (ucast (mem (4 * (x + y * stride) + 2)))
     OR push_bit 24 (ucast (mem (4 * (x + y * stride) + 3)))"

definition Get16Ptr :: "int \<Rightarrow> int \<Rightarrow> int \<Rightarrow> int" where
  "Get16Ptr x y stride = 2 * (x + y * stride)"

definition Get32Ptr :: "int \<Rightarrow> int \<Rightarrow> int \<Rightarrow> int" where
  "Get32Ptr x y stride = 4 * (x + y * stride)"

text \<open>A counting loop \<open>for (i = lo; i < hi; ++i)\<close> over a state, and \<open>memset\<close> with it.\<close>

function for_loop :: "int \<Rightarrow> int \<Rightarrow> (int \<Rightarrow> 's \<Rightarrow> 's) \<Rightarrow> 's \<Rightarrow> 's" where
  "for_loop i hi body s = (if i < hi then for_loop (i + 1) hi body (body i s) else s)"
  by pat_completeness auto
termination
  by (relation "measure (\<lambda>(i, hi, body, s). nat (hi - i))") auto

definition memset :: "bytes \<Rightarrow> int \<Rightarrow> 8 word \<Rightarrow> int \<Rightarrow> bytes" where
  "memset mem ptr c n = for_loop 0 n (\<lambda>k m. m(ptr + k := c)) mem"

text \<open>
  Modelled from the spec: the colour conversions of Common/Data/Convert/ColorConv.h and
  \<open>Vec4<int>::ToRGBA\<close> (GPU/Math3D.h) are not among the sources.  The specification gives
  the packed formats 565, 5551 and 4444 and says that a conversion keeps the top bits of
  each 8-bit channel (an 8-bit value \<open>v\<close> on a 5-bit component comes back as
  \<open>(v >> 3) << 3\<close>); red is the low channel.
\<close>

definition RGBA8888ToRGB565 :: "32 word \<Rightarrow> 16 word" where
  "RGBA8888ToRGB565 c =
     ucast ((drop_bit 3 c AND 0x1F) OR push_bit 5 (drop_bit 10 c AND 0x3F)
            OR push_bit 11 (drop_bit 19 c AND 0x1F))"

definition RGBA8888ToRGBA5551 :: "32 word \<Rightarrow> 16 word" where
  "RGBA8888ToRGBA5551 c =
     ucast ((drop_bit 3 c AND 0x1F) OR push_bit 5 (drop_bit 11 c AND 0x1F)
            OR push_bit 10 (drop_bit 19 c AND 0x1F) OR push_bit 15 (drop_bit 31 c AND 0x1))"

definition RGBA8888ToRGBA4444 :: "32 word \<Rightarrow> 16 word" where
  "RGBA8888ToRGBA4444 c =
     ucast ((drop_bit 4 c AND 0xF) OR push_bit 4 (drop_bit 12 c AND 0xF)
            OR push_bit 8 (drop_bit 20 c AND 0xF) OR push_bit 12 (drop_bit 28 c AND 0xF))"

definition ToRGBA :: "int Vec4 \<Rightarrow> 32 word" where
  "ToRGBA c =
     (word_of_int (lane0 c) AND 0xFF) OR push_bit 8 (word_of_int (lane1 c) AND 0xFF)
     OR push_bit 16 (word_of_int (lane2 c) AND 0xFF) OR push_bit 24 (word_of_int (lane3 c) AND 0xFF)"

text \<open>The depth part of \<open>ClearRectangle\<close>: rows \<open>pprime.y\<close> up to \<open>pend.y\<close>, \<open>w\<close> values from
  column \<open>pprime.x\<close>, by \<open>memset\<close> when the two bytes of \<open>z\<close> are equal.\<close>

definition ClearRectangle_depth ::
  "int list \<Rightarrow> int \<Rightarrow> 16 word \<Rightarrow> int \<times> int \<Rightarrow> int \<times> int \<Rightarrow> int \<Rightarrow> bytes \<Rightarrow> bytes" where
  "ClearRectangle_depth cuts stride z pprime pend w mem =
    (if z AND 0xFF = drop_bit 8 z
     then ParallelRangeLoop cuts
            (\<lambda>y1 y2. for_loop y1 y2
               (\<lambda>py m. memset m (Get16Ptr (fst pprime) py stride) (ucast z) (w * 2)))
            (snd pprime) (snd pend) mem
     else ParallelRangeLoop cuts
            (\<lambda>y1 y2. for_loop y1 y2
               (\<lambda>py. for_loop 0 w (\<lambda>x m. Set16 m (fst pprime + x) py stride z)))
            (snd pprime) (snd pend) mem)"

text \<open>The colour part of \<open>ClearRectangle\<close>, from the final \<open>keepOldMask\<close>.\<close>

definition ClearRectangle_color ::
  "int list \<Rightarrow> GPUgstate \<Rightarrow> 32 word \<Rightarrow> 32 word \<Rightarrow> 16 word \<Rightarrow> int \<times> int \<Rightarrow> int \<times> int \<Rightarrow> int \<Rightarrow>
   bytes \<Rightarrow> bytes" where
  "ClearRectangle_color cuts gstate keepOldMask new_color new_color16 pprime pend w mem =
    (let stride = FrameBufStride gstate
     in if keepOldMask = 0 then
          if FrameBufFormat gstate = GE_FORMAT_8888 then
            if new_color AND 0xFF = drop_bit 8 new_color \<and> new_color AND 0xFFFF = drop_bit 16 new_color
            then ParallelRangeLoop cuts
                   (\<lambda>y1 y2. for_loop y1 y2
                      (\<lambda>py m. memset m (Get32Ptr (fst pprime) py stride) (ucast new_color) (w * 4)))
                   (snd pprime) (snd pend) mem
            else ParallelRangeLoop cuts
                   (\<lambda>y1 y2. for_loop y1 y2
                      (\<lambda>py. for_loop 0 w (\<lambda>x m. Set32 m (fst pprime + x) py stride new_color)))
                   (snd pprime) (snd pend) mem
          else
            if new_color16 AND 0xFF = drop_bit 8 new_color16
            then ParallelRangeLoop cuts
                   (\<lambda>y1 y2. for_loop y1 y2
                      (\<lambda>py m. memset m (Get16Ptr (fst pprime) py stride) (ucast new_color16) (w * 2)))
                   (snd pprime) (snd pend) mem
            else ParallelRangeLoop cuts
                   (\<lambda>y1 y2. for_loop y1 y2
                      (\<lambda>py. for_loop 0 w (\<lambda>x m. Set16 m (fst pprime + x) py stride new_color16)))
                   (snd pprime) (snd pend) mem
        else if keepOldMask \<noteq> 0xFFFFFFFF then
          if FrameBufFormat gstate = GE_FORMAT_8888 then
            ParallelRangeLoop cuts
              (\<lambda>y1 y2. for_loop y1 y2
                 (\<lambda>py. for_loop 0 w
                    (\<lambda>x m. let old_color = Get32 m (fst pprime + x) py stride;
                                c = (old_color AND keepOldMask) OR (new_color AND NOT keepOldMask)
                            in Set32 m (fst pprime + x) py stride c)))
              (snd pprime) (snd pend) mem
          else
            ParallelRangeLoop cuts
              (\<lambda>y1 y2. for_loop y1 y2
                 (\<lambda>py. for_loop 0 w
                    (\<lambda>x m. let old_color = Get16 m (fst pprime + x) py stride;
                                c = ucast ((ucast old_color AND keepOldMask)
                                           OR (ucast new_color16 AND NOT keepOldMask))
                            in Set16 m (fst pprime + x) py stride c)))
              (snd pprime) (snd pend) mem
        else mem)"

text \<open>
  \<open>ClearRectangle\<close>.  \<open>FrameBufFormat\<close> masks the format to two bits, so the branches of the
  format switch for \<open>GE_FORMAT_INVALID\<close> and \<open>GE_FORMAT_DEPTH16\<close> are not reached; in format
  8888 \<open>new_color16\<close> is not assigned and not read.
\<close>

definition ClearRectangle_keepOldMask :: "GPUgstate \<Rightarrow> 32 word" where
  "ClearRectangle_keepOldMask gstate =
    (let keepOldMask = 0xFFFFFFFF;
         keepOldMask = (if isClearModeColorMask gstate then keepOldMask AND 0xFF000000 else keepOldMask);
         keepOldMask = (if isClearModeAlphaMask gstate then keepOldMask AND 0x00FFFFFF else keepOldMask);
         keepOldMask = keepOldMask OR getColorMask gstate
     in case FrameBufFormat gstate of
          GE_FORMAT_565 \<Rightarrow>
            (if keepOldMask = 0 then 0 else 0xFFFF0000 OR ucast (RGBA8888ToRGB565 keepOldMask))
        | GE_FORMAT_5551 \<Rightarrow>
            (if keepOldMask = 0 then 0 else 0xFFFF0000 OR ucast (RGBA8888ToRGBA5551 keepOldMask))
        | GE_FORMAT_4444 \<Rightarrow>
            (if keepOldMask = 0 then 0 else 0xFFFF0000 OR ucast (RGBA8888ToRGBA4444 keepOldMask))
        | GE_FORMAT_8888 \<Rightarrow> keepOldMask)"

definition ClearRectangle_new_color16 :: "GPUgstate \<Rightarrow> 32 word \<Rightarrow> 16 word" where
  "ClearRectangle_new_color16 gstate new_color =
    (case FrameBufFormat gstate of
       GE_FORMAT_565 \<Rightarrow> RGBA8888ToRGB565 new_color
     | GE_FORMAT_5551 \<Rightarrow> RGBA8888ToRGBA5551 new_color
     | GE_FORMAT_4444 \<Rightarrow> RGBA8888ToRGBA4444 new_color
     | GE_FORMAT_8888 \<Rightarrow> 0)"

definition ClearRectangle ::
  "TransformUnit \<Rightarrow> GPUgstate \<Rightarrow> int list \<Rightarrow> int list \<Rightarrow> 'f VertexData \<Rightarrow> 'f VertexData \<Rightarrow>
   buffers \<Rightarrow> buffers" where
  "ClearRectangle tu gstate depth_cuts color_cuts v0 v1 bufs =
    (let minX = min (screenpos_x v0) (screenpos_x v1) AND NOT 0xF;
         minY = min (screenpos_y v0) (screenpos_y v1) AND NOT 0xF;
         maxX = (max (screenpos_x v0) (screenpos_x v1) + 0xF) AND NOT 0xF;
         maxY = (max (screenpos_y v0) (screenpos_y v1) + 0xF) AND NOT 0xF;
         scissorTL = (getScissorX1 gstate, getScissorY1 gstate);
         scissorBR = (getScissorX2 gstate, getScissorY2 gstate);
         minX = max minX (fst (DrawingToScreen tu scissorTL));
         maxX = max 0 (min maxX (fst (DrawingToScreen tu scissorBR) + 16));
         minY = max minY (snd (DrawingToScreen tu scissorTL));
         maxY = max 0 (min maxY (snd (DrawingToScreen tu scissorBR) + 16));
         pprime = ScreenToDrawing tu (minX, minY);
         pend = ScreenToDrawing tu (maxX, maxY);
         w = cdiv (maxX - minX) 16
     in if w \<le> 0 then bufs
        else
          let bufs = (if isClearModeDepthMask gstate
                      then bufs\<lparr>depthmem := ClearRectangle_depth depth_cuts (DepthBufStride gstate)
                                    (word_of_int (screenpos_z v1)) pprime pend w (depthmem bufs)\<rparr>
                      else bufs);
              keepOldMask = ClearRectangle_keepOldMask gstate;
              new_color = ToRGBA (color0 v1);
              new_color16 = ClearRectangle_new_color16 gstate new_color
          in bufs\<lparr>fbmem := ClearRectangle_color color_cuts gstate keepOldMask new_color new_color16
                                pprime pend w (fbmem bufs)\<rparr>)"

text \<open>
  Notions the statements about \<open>DrawTriangle\<close> use.  \<open>signed_area2\<close> is twice the signed
  area of the triangle in screen space, as a number (no 32-bit arithmetic); a triangle is
  degenerate when this area is zero or negative (not wound counter-clockwise).  \<open>cross32\<close>
  is the value \<open>DrawTriangle\<close> tests, the same cross product computed in 32 bits.  The
  vertices of a triangle are \<open>near\<close> each other when the first differs from the other two by
  less than $2^{15}$ subpixels in x and in y; a vertex is in the \<open>screen_range\<close> when its
  coordinates are those of an unsigned 16-bit value.
\<close>

definition signed_area2 :: "'f VertexData \<Rightarrow> 'f VertexData \<Rightarrow> 'f VertexData \<Rightarrow> int" where
  "signed_area2 v0 v1 v2 =
     (screenpos_x v0 - screenpos_x v1) * (screenpos_y v0 - screenpos_y v2)
     - (screenpos_y v0 - screenpos_y v1) * (screenpos_x v0 - screenpos_x v2)"



definition cross32 :: "'f VertexData \<Rightarrow> 'f VertexData \<Rightarrow> 'f VertexData \<Rightarrow> int" where
  "cross32 v0 v1 v2 =
     sub32 (mul32 (sub32 (screenpos_x v0) (screenpos_x v1)) (sub32 (screenpos_y v0) (screenpos_y v2)))
           (mul32 (sub32 (screenpos_y v0) (screenpos_y v1)) (sub32 (screenpos_x v0) (screenpos_x v2)))"




text \<open>Vertices and a configuration for examples: scissor rectangle of pixels (0,0) to (9,9),
  flat shading, no fog, no texture.\<close>

definition example_vertex :: "int \<Rightarrow> int \<Rightarrow> int \<Rightarrow> int Vec4 \<Rightarrow> rat VertexData" where
  "example_vertex x y z c =
     \<lparr>screenpos_x = x, screenpos_y = y, screenpos_z = z, color0 = c, color1 = Vec3 0 0 0,
      texturecoords = (0, 0), fogdepth = 1, clippos_w = 1\<rparr>"

definition example_gstate :: GPUgstate where
  "example_gstate =
     \<lparr>getScissorX1 = 0, getScissorY1 = 0, getScissorX2 = 9, getScissorY2 = 9, isModeClear = False,
      getShadeMode = GE_SHADE_FLAT, isFogEnabled = False, isTextureMapEnabled = False,
      isAntiAliasEnabled = False, isClearModeDepthMask = False, isClearModeColorMask = False,
      isClearModeAlphaMask = False, getColorMask = 0, FrameBufFormat = GE_FORMAT_8888,
      FrameBufStride = 512, DepthBufStride = 512\<rparr>"

text \<open>Names for the parts of \<open>DrawTriangle\<close>, used in the statements and proofs: the
  bounding box after clamping to the scissor rectangle, and the dispatch to slices.\<close>

definition clamped_minX :: "TransformUnit \<Rightarrow> GPUgstate \<Rightarrow> 'f VertexData \<Rightarrow> 'f VertexData \<Rightarrow> 'f VertexData \<Rightarrow> int" where
  "clamped_minX tu gstate v0 v1 v2 =
     max (min (min (screenpos_x v0) (screenpos_x v1)) (screenpos_x v2) AND NOT 0xF)
         (fst (DrawingToScreen tu (getScissorX1 gstate, getScissorY1 gstate)))"

definition clamped_maxX :: "TransformUnit \<Rightarrow> GPUgstate \<Rightarrow> 'f VertexData \<Rightarrow> 'f VertexData \<Rightarrow> 'f VertexData \<Rightarrow> int" where
  "clamped_maxX tu gstate v0 v1 v2 =
     min (max (max (screenpos_x v0) (screenpos_x v1)) (screenpos_x v2) OR 0xF)
         (add32 (fst (DrawingToScreen tu (getScissorX2 gstate, getScissorY2 gstate))) 15)"

definition clamped_minY :: "TransformUnit \<Rightarrow> GPUgstate \<Rightarrow> 'f VertexData \<Rightarrow> 'f VertexData \<Rightarrow> 'f VertexData \<Rightarrow> int" where
  "clamped_minY tu gstate v0 v1 v2 =
     max (min (min (screenpos_y v0) (screenpos_y v1)) (screenpos_y v2) AND NOT 0xF)
         (snd (DrawingToScreen tu (getScissorX1 gstate, getScissorY1 gstate)))"

definition clamped_maxY :: "TransformUnit \<Rightarrow> GPUgstate \<Rightarrow> 'f VertexData \<Rightarrow> 'f VertexData \<Rightarrow> 'f VertexData \<Rightarrow> int" where
  "clamped_maxY tu gstate v0 v1 v2 =
     min (max (max (screenpos_y v0) (screenpos_y v1)) (screenpos_y v2) OR 0xF)
         (add32 (snd (DrawingToScreen tu (getScissorX2 gstate, getScissorY2 gstate))) 15)"

definition DrawTriangle_dispatch ::
  "'f fpu \<Rightarrow> 'f texturing \<Rightarrow> TransformUnit \<Rightarrow> GPUgstate \<Rightarrow> int list \<Rightarrow>
   'f VertexData \<Rightarrow> 'f VertexData \<Rightarrow> 'f VertexData \<Rightarrow> int \<Rightarrow> int \<Rightarrow> int \<Rightarrow> int \<Rightarrow>
   event list \<Rightarrow> event list" where
  "DrawTriangle_dispatch fpu tex tu gstate cuts v0 v1 v2 minX minY maxX maxY resolved =
    (if cdiv (add32 (sub32 maxY minY) 31) 32 \<ge> 12
        \<and> cdiv (add32 (sub32 maxX minX) 31) 32 \<ge> mul32 (cdiv (add32 (sub32 maxY minY) 31) 32) 4 then
       ParallelRangeLoop cuts
         (\<lambda>a b. drawSlice fpu tex tu gstate v0 v1 v2
                   (add32 minX (mul32 (mul32 a 16) 2)) minY
                   (min maxX (sub32 (add32 minX (mul32 (mul32 b 16) 2)) 1)) maxY)
         0 (cdiv (add32 (sub32 maxX minX) 31) 32) resolved
     else if cdiv (add32 (sub32 maxY minY) 31) 32 \<ge> 12 \<and> cdiv (add32 (sub32 maxX minX) 31) 32 \<ge> 12 then
       ParallelRangeLoop cuts
         (\<lambda>a b. drawSlice fpu tex tu gstate v0 v1 v2
                   minX (add32 minY (mul32 (mul32 a 16) 2)) maxX
                   (min maxY (sub32 (add32 minY (mul32 (mul32 b 16) 2)) 1)))
         0 (cdiv (add32 (sub32 maxY minY) 31) 32) resolved
     else drawSlice fpu tex tu gstate v0 v1 v2 minX minY maxX maxY resolved)"

text \<open>Calls made by slices: none of them resolves a fingerprint or a compiled function.\<close>

definition slice_calls :: "event list \<Rightarrow> bool" where
  "slice_calls evs = (\<forall>e \<in> set evs. \<not> is_resolution e)"

subsection \<open>The lanes of a triangle in closed form\<close>
















subsection \<open>The bytes a depth clear touches\<close>

text \<open>The depth value as the two bytes it occupies (little endian), the byte addresses of the
  16-bit cells of a rectangle of the depth buffer, and the clamped bounds that
  \<open>ClearRectangle\<close> computes from its two vertices and the scissor.\<close>

definition z_byte :: "16 word \<Rightarrow> int \<Rightarrow> 8 word" where
  "z_byte z a = (if even a then ucast z else ucast (drop_bit 8 z))"

definition depth_rect_bytes :: "int \<Rightarrow> int \<times> int \<Rightarrow> int \<times> int \<Rightarrow> int \<Rightarrow> int set" where
  "depth_rect_bytes stride pprime pend w =
     (\<Union>y \<in> {snd pprime..<snd pend}. \<Union>x \<in> {0..<w}.
        {2 * (fst pprime + x + y * stride), 2 * (fst pprime + x + y * stride) + 1})"

definition ClearRectangle_minX :: "TransformUnit \<Rightarrow> GPUgstate \<Rightarrow> 'f VertexData \<Rightarrow> 'f VertexData \<Rightarrow> int" where
  "ClearRectangle_minX tu gstate v0 v1 =
     max (min (screenpos_x v0) (screenpos_x v1) AND NOT 0xF)
         (fst (DrawingToScreen tu (getScissorX1 gstate, getScissorY1 gstate)))"

definition ClearRectangle_maxX :: "TransformUnit \<Rightarrow> GPUgstate \<Rightarrow> 'f VertexData \<Rightarrow> 'f VertexData \<Rightarrow> int" where
  "ClearRectangle_maxX tu gstate v0 v1 =
     max 0 (min ((max (screenpos_x v0) (screenpos_x v1) + 0xF) AND NOT 0xF)
                (fst (DrawingToScreen tu (getScissorX2 gstate, getScissorY2 gstate)) + 16))"

definition ClearRectangle_minY :: "TransformUnit \<Rightarrow> GPUgstate \<Rightarrow> 'f VertexData \<Rightarrow> 'f VertexData \<Rightarrow> int" where
  "ClearRectangle_minY tu gstate v0 v1 =
     max (min (screenpos_y v0) (screenpos_y v1) AND NOT 0xF)
         (snd (DrawingToScreen tu (getScissorX1 gstate, getScissorY1 gstate)))"

definition ClearRectangle_maxY :: "TransformUnit \<Rightarrow> GPUgstate \<Rightarrow> 'f VertexData \<Rightarrow> 'f VertexData \<Rightarrow> int" where
  "ClearRectangle_maxY tu gstate v0 v1 =
     max 0 (min ((max (screenpos_y v0) (screenpos_y v1) + 0xF) AND NOT 0xF)
                (snd (DrawingToScreen tu (getScissorX2 gstate, getScissorY2 gstate)) + 16))"

definition ClearRectangle_pprime :: "TransformUnit \<Rightarrow> GPUgstate \<Rightarrow> 'f VertexData \<Rightarrow> 'f VertexData \<Rightarrow> int \<times> int" where
  "ClearRectangle_pprime tu gstate v0 v1 =
     ScreenToDrawing tu (ClearRectangle_minX tu gstate v0 v1, ClearRectangle_minY tu gstate v0 v1)"

definition ClearRectangle_pend :: "TransformUnit \<Rightarrow> GPUgstate \<Rightarrow> 'f VertexData \<Rightarrow> 'f VertexData \<Rightarrow> int \<times> int" where
  "ClearRectangle_pend tu gstate v0 v1 =
     ScreenToDrawing tu (ClearRectangle_maxX tu gstate v0 v1, ClearRectangle_maxY tu gstate v0 v1)"

definition ClearRectangle_w :: "TransformUnit \<Rightarrow> GPUgstate \<Rightarrow> 'f VertexData \<Rightarrow> 'f VertexData \<Rightarrow> int" where
  "ClearRectangle_w tu gstate v0 v1 =
     cdiv (ClearRectangle_maxX tu gstate v0 v1 - ClearRectangle_minX tu gstate v0 v1) 16"

definition cleared_depth_bytes :: "TransformUnit \<Rightarrow> GPUgstate \<Rightarrow> 'f VertexData \<Rightarrow> 'f VertexData \<Rightarrow> int set" where
  "cleared_depth_bytes tu gstate v0 v1 =
    (if ClearRectangle_w tu gstate v0 v1 \<le> 0 then {}
     else depth_rect_bytes (DepthBufStride gstate) (ClearRectangle_pprime tu gstate v0 v1)
            (ClearRectangle_pend tu gstate v0 v1) (ClearRectangle_w tu gstate v0 v1))"

definition example_clear_gstate :: GPUgstate where
  "example_clear_gstate = example_gstate\<lparr>isModeClear := True, isClearModeDepthMask := True,
      FrameBufFormat := GE_FORMAT_565\<rparr>"

subsection \<open>The attributes of one pixel\<close>








section \<open>Properties of the stencil operations\<close>

lemma low8_set_low8: "low8 (set_low8 r b) = b"
proof -
  have m: "(0xFF :: 32 word) = mask 8"
    by (simp add: mask_eq_exp_minus_1)
  show ?thesis
    unfolding low8_def set_low8_def m
    by (rule bit_word_eqI) (auto simp: bit_simps)
qed

lemma low8_0: "low8 0 = 0"
  by (simp add: low8_def)

text \<open>
  C3.  For every starting stencil byte (the low byte of \<open>stencilReg\<close>), increment and
  decrement behave per framebuffer format: in 565 both leave the byte as it is; in 5551
  increment yields 0xFF and decrement yields 0x00; in 4444 increment adds 0x11 unless the
  byte is at least 0xF0 (then it is unchanged) and decrement subtracts 0x11 unless the
  byte is below 0x11 (then unchanged); in 8888 increment adds 1 unless the byte is 0xFF
  and decrement subtracts 1 unless the byte is 0x00.  Additions and subtractions are the
  8-bit ones of \<open>ADD(8, ...)\<close> and \<open>SUB(8, ...)\<close>.
\<close>

theorem stencil_incr_decr_saturation:
  "low8 (Jit_ApplyStencilOp pid st GE_STENCILOP_INCR r) =
     (case fbFormat pid of
        GE_FORMAT_565 \<Rightarrow> low8 r
      | GE_FORMAT_5551 \<Rightarrow> 0xFF
      | GE_FORMAT_4444 \<Rightarrow> (if 0xF0 \<le> low8 r then low8 r else low8 r + 0x11)
      | GE_FORMAT_8888 \<Rightarrow> (if low8 r = 0xFF then low8 r else low8 r + 1))
   \<and> low8 (Jit_ApplyStencilOp pid st GE_STENCILOP_DECR r) =
     (case fbFormat pid of
        GE_FORMAT_565 \<Rightarrow> low8 r
      | GE_FORMAT_5551 \<Rightarrow> 0x00
      | GE_FORMAT_4444 \<Rightarrow> (if low8 r < 0x11 then low8 r else low8 r - 0x11)
      | GE_FORMAT_8888 \<Rightarrow> (if low8 r = 0x00 then low8 r else low8 r - 1))"
  by (cases "fbFormat pid")
     (auto simp: Jit_ApplyStencilOp_def CMP_def low8_set_low8 low8_0 not_le)

section \<open>Properties of the fog stage\<close>

lemma unat_ucast_8_16: "unat (ucast (c :: 8 word) :: 16 word) = unat c"
  by (simp add: unsigned_ucast_eq take_bit_nat_eq_self_iff order_less_trans[OF unsigned_less])

lemma unat_8_le: "unat (c :: 8 word) \<le> 255"
  using unsigned_less[of c, where 'a = nat] by simp

lemma fog_lane_value:
  fixes c f :: "8 word" and w :: "16 word"
  assumes w: "w \<le> 255"
  shows "unat (PSRLW_lane 7 (PMULHUW_lane (PADDUSW_lane (PMULLW_lane (ucast c) w)
            (PMULLW_lane (ucast f) (PSUBUSW_lane 255 w))) 0x8081))
         = ((unat c * unat w + unat f * (255 - unat w)) * 0x8081) div 2 ^ 23"
proof -
  have wn: "unat w \<le> 255" using w by (simp add: word_le_nat_alt)
  have cn: "unat c \<le> 255" by (rule unat_8_le)
  have fn: "unat f \<le> 255" by (rule unat_8_le)
  have inv: "unat (PSUBUSW_lane 255 w) = 255 - unat w"
    using w by (simp add: PSUBUSW_lane_def not_less unat_sub)
  have cw: "unat c * unat w \<le> 255 * unat w" using cn by (rule mult_le_mono1)
  have fw: "unat f * (255 - unat w) \<le> 255 * (255 - unat w)" using fn by (rule mult_le_mono1)
  have tot: "255 * unat w + 255 * (255 - unat w) = 65025" using wn by simp
  have m1: "unat (PMULLW_lane (ucast c) w) = unat c * unat w"
  proof -
    have "unat c * unat w < 65536" using cw tot by linarith
    then have "unat (ucast c :: 16 word) * unat w < 2 ^ LENGTH(16)"
      by (simp add: unat_ucast_8_16)
    then show ?thesis
      by (simp add: PMULLW_lane_def unat_mult_lem [THEN iffD1] unat_ucast_8_16)
  qed
  have m2: "unat (PMULLW_lane (ucast f) (PSUBUSW_lane 255 w)) = unat f * (255 - unat w)"
  proof -
    have "unat f * (255 - unat w) < 65536" using fw tot by linarith
    then have "unat (ucast f :: 16 word) * unat (PSUBUSW_lane 255 w) < 2 ^ LENGTH(16)"
      by (simp add: unat_ucast_8_16 inv)
    then show ?thesis
      by (simp add: PMULLW_lane_def unat_mult_lem [THEN iffD1] unat_ucast_8_16 inv)
  qed
  define x where "x = unat c * unat w + unat f * (255 - unat w)"
  have xb: "x \<le> 65025" using cw fw tot unfolding x_def by linarith
  have s: "unat (PADDUSW_lane (PMULLW_lane (ucast c) w)
            (PMULLW_lane (ucast f) (PSUBUSW_lane 255 w))) = x"
  proof -
    have "unat (PMULLW_lane (ucast c) w) + unat (PMULLW_lane (ucast f) (PSUBUSW_lane 255 w)) < 2 ^ LENGTH(16)"
      using xb by (simp add: m1 m2 x_def)
    then show ?thesis using xb
      by (simp add: PADDUSW_lane_def unat_add_lem [THEN iffD1] m1 m2 x_def)
  qed
  have h: "unat (PMULHUW_lane y 0x8081) = (unat y * 0x8081) div 2 ^ 16" for y :: "16 word"
  proof -
    have yb: "unat y < 65536" using unsigned_less[of y, where 'a = nat] by simp
    have u: "unat (ucast y :: 32 word) = unat y"
      using yb by (simp add: unsigned_ucast_eq take_bit_nat_eq_self_iff)
    have "unat (ucast y :: 32 word) * unat (0x8081 :: 32 word) < 2 ^ LENGTH(32)"
      using yb by (simp add: u)
    then have p: "unat ((ucast y :: 32 word) * 0x8081) = unat y * 0x8081"
      by (simp add: unat_mult_lem [THEN iffD1] u)
    have q: "unat y * 0x8081 div 2 ^ 16 < 2 ^ 16" using yb by simp
    show ?thesis
      using q by (simp add: PMULHUW_lane_def unsigned_ucast_eq unat_div p drop_bit_eq_div
          take_bit_nat_eq_self_iff)
  qed
  have r: "unat (PSRLW_lane 7 z) = unat z div 2 ^ 7" for z
    unfolding PSRLW_lane_def unat_drop_bit_eq by (rule drop_bit_eq_div)
  have "x * 0x8081 div 2 ^ 16 div 2 ^ 7 = x * 0x8081 div 2 ^ 23"
    by (simp add: div_mult2_eq [symmetric])
  then show ?thesis
    unfolding r h s by (simp only: x_def)
qed

lemma ucast_alpha_roundtrip: "(ucast (ucast (ucast (a :: 8 word) :: 16 word) :: 32 word) :: 16 word) = ucast a"
  by (rule bit_word_eqI) (auto simp: bit_simps)

lemma ucast_alpha_roundtrip2: "(ucast (ucast (a :: 8 word) :: 32 word) :: 16 word) = ucast a"
  by (rule bit_word_eqI) (auto simp: bit_simps)

lemma unat_ucast_32_16: "w \<le> 0xFF \<Longrightarrow> unat (ucast (w :: 32 word) :: 16 word) = unat w"
  by (simp add: unsigned_ucast_eq take_bit_nat_eq_self_iff word_le_nat_alt)

lemma ucast_32_16_le: "w \<le> 0xFF \<Longrightarrow> (ucast (w :: 32 word) :: 16 word) \<le> 255"
  using unat_ucast_32_16 [of w] by (simp add: word_le_nat_alt)

text \<open>
  C2.  When the fog stage is compiled in, the fog factor is in [0,255] and the colour is the
  clamped 8-bit colour, each of the r, g, b output lanes is the 16-bit blend
  \<open>c * w + f * (255 - w)\<close> of the colour channel \<open>c\<close> and the fog colour channel \<open>f\<close>,
  multiplied by 0x8081 and shifted right by 23 bits in total; the alpha lane is the
  incoming alpha.  A source-alpha register already present in the register cache is one
  that holds the colour's alpha byte.
\<close>

theorem fog_stage_blend:
  assumes "applyFog pid" and "argFog \<le> 0xFF"
    and "srcAlpha = None \<or> srcAlpha = Some (ucast a)"
  shows "case Jit_ApplyFog pid fogcolor srcAlpha argFog (Color8 (Vec4 r g b a)) of
           Color8 c \<Rightarrow> False
         | Color16 c \<Rightarrow>
             unat (lane0 c) = fog_blend_by255 (unat r) (unat (ucast fogcolor :: 8 word)) (unat argFog)
           \<and> unat (lane1 c) = fog_blend_by255 (unat g) (unat (ucast (drop_bit 8 fogcolor) :: 8 word)) (unat argFog)
           \<and> unat (lane2 c) = fog_blend_by255 (unat b) (unat (ucast (drop_bit 16 fogcolor) :: 8 word)) (unat argFog)
           \<and> lane3 c = ucast a"
proof -
  have w: "(ucast argFog :: 16 word) \<le> 255" using assms(2) by (rule ucast_32_16_le)
  have u: "unat (ucast argFog :: 16 word) = unat argFog" using assms(2) by (rule unat_ucast_32_16)
  note l = fog_lane_value [OF w, unfolded u, folded fog_blend_by255_def]
  from assms(3) show ?thesis
    using assms(1)
    by (auto simp: Jit_ApplyFog_def Let_def PMOVZXBW_def PEXTRW3_def PINSRW3_def MOVD_PSHUFLW0_def
        AssignToAll_def PMULLW_def PSUBUSW_def PADDUSW_def PMULHUW_def PSRLW_def by255i_def
        const255_16s_def l ucast_alpha_roundtrip ucast_alpha_roundtrip2)
qed

theorem fog_stage_blend_witness:
  "case Jit_ApplyFog (PixelFuncID_clear\<lparr>applyFog := True\<rparr>) 0x00808080 None 64
          (Color8 (Vec4 200 100 0 77)) of
     Color8 c \<Rightarrow> False
   | Color16 c \<Rightarrow> unat (lane0 c) = 146 \<and> unat (lane1 c) = 120 \<and> unat (lane2 c) = 95 \<and> lane3 c = 77"
  using fog_stage_blend [where pid = "PixelFuncID_clear\<lparr>applyFog := True\<rparr>"
          and argFog = 64 and srcAlpha = None and a = 77
          and fogcolor = "0x00808080" and r = 200 and g = 100 and b = 0]
  by (simp add: fog_blend_by255_def PixelFuncID_clear_def split: colorreg.splits)

text \<open>On the range the blend can take, the multiply-and-shift agrees with division by 255.\<close>

lemma by255_is_division: "x \<le> 65025 \<Longrightarrow> (x * 0x8081) div 2 ^ 23 = x div (255::nat)"
  by simp

section \<open>Properties of alpha blending\<close>

lemma blend_mul_sse_eq:
  assumes "0 \<le> c" "c \<le> 255" "0 \<le> f" "f \<le> 510"
  shows "blend_mul_sse c f = blend_mul c f"
proof -
  have 1: "mm_add_epi16 (mm_slli_epi16 (mm_packs_epi32 x) 4) 8 = 16 * x + 8"
    if "0 \<le> x" "x \<le> 510" for x
    using that by (simp add: mm_add_epi16_def mm_slli_epi16_def mm_packs_epi32_def sat16_def wrap16_def)
  have c': "c \<le> 510" using assms by simp
  have e: "(16 * c + 8) * (16 * f + 8) = 64 * ((c * 2 + 1) * (f * 2 + 1))"
    by (simp add: algebra_simps)
  have p: "0 \<le> (c * 2 + 1) * (f * 2 + 1)" using assms by simp
  have d: "64 * x div 65536 = x div 1024" for x :: int
    by simp
  have "blend_mul_sse c f = (16 * c + 8) * (16 * f + 8) div 65536"
    using assms by (simp add: blend_mul_sse_def Let_def 1 c' mm_mulhi_epi16_def)
  also have "\<dots> = (c * 2 + 1) * (f * 2 + 1) div 1024"
    unfolding e by (rule d)
  also have "\<dots> = blend_mul c f"
    using p by (simp add: blend_mul_def cdiv_def sgn_if)
  finally show ?thesis .
qed

lemma blend_mul_range:
  assumes "0 \<le> c" "c \<le> 255" "0 \<le> f" "f \<le> 510"
  shows "0 \<le> blend_mul c f \<and> blend_mul c f \<le> 509"
proof -
  have p: "0 \<le> (c * 2 + 1) * (f * 2 + 1)" using assms by simp
  have "(c * 2 + 1) * (f * 2 + 1) \<le> 511 * 1021"
    using assms by (intro mult_mono) simp_all
  then have "(c * 2 + 1) * (f * 2 + 1) div 1024 \<le> 509" by simp
  moreover have "0 \<le> (c * 2 + 1) * (f * 2 + 1) div 1024" using p by simp
  ultimately show ?thesis using p by (simp add: blend_mul_def cdiv_def sgn_if)
qed

lemma blend_add_sse_lane:
  assumes "channel_ok s" "0 \<le> sf" "sf \<le> 510" "channel_ok d" "0 \<le> df" "df \<le> 510"
  shows "mm_unpacklo_epi16_zero (mm_adds_epi16 (blend_mul_sse s sf) (blend_mul_sse d df))
         = blend_mul s sf + blend_mul d df"
proof -
  have a: "0 \<le> blend_mul s sf \<and> blend_mul s sf \<le> 509"
    using assms by (intro blend_mul_range) (simp_all add: channel_ok_def)
  have b: "0 \<le> blend_mul d df \<and> blend_mul d df \<le> 509"
    using assms by (intro blend_mul_range) (simp_all add: channel_ok_def)
  have "blend_mul_sse s sf = blend_mul s sf" "blend_mul_sse d df = blend_mul d df"
    using assms by (simp_all add: blend_mul_sse_eq channel_ok_def)
  then show ?thesis
    using a b by (simp add: mm_unpacklo_epi16_zero_def mm_adds_epi16_def sat16_def)
qed

lemma GetSourceFactor_range:
  assumes "color4_ok source" "color4_ok dst" "color3_ok fixA"
  shows "0 \<le> vr (GetSourceFactor fixA f source dst) \<and> vr (GetSourceFactor fixA f source dst) \<le> 510
       \<and> 0 \<le> vg (GetSourceFactor fixA f source dst) \<and> vg (GetSourceFactor fixA f source dst) \<le> 510
       \<and> 0 \<le> vb (GetSourceFactor fixA f source dst) \<and> vb (GetSourceFactor fixA f source dst) \<le> 510"
  using assms
  by (cases f; cases source; cases dst; cases fixA)
     (simp_all add: color4_ok_def color3_ok_def channel_ok_def rgb_def AssignToAll3_def min_def)

lemma GetDestFactor_range:
  assumes "color4_ok source" "color4_ok dst" "color3_ok fixB"
  shows "0 \<le> vr (GetDestFactor fixB f source dst) \<and> vr (GetDestFactor fixB f source dst) \<le> 510
       \<and> 0 \<le> vg (GetDestFactor fixB f source dst) \<and> vg (GetDestFactor fixB f source dst) \<le> 510
       \<and> 0 \<le> vb (GetDestFactor fixB f source dst) \<and> vb (GetDestFactor fixB f source dst) \<le> 510"
  using assms
  by (cases f; cases source; cases dst; cases fixB)
     (simp_all add: color4_ok_def color3_ok_def channel_ok_def rgb_def AssignToAll3_def min_def)

text \<open>
  C4.  With the add equation, each RGB channel of the blend result is
  \<open>((2*src+1)*(2*srcFactor+1))/1024 + ((2*dst+1)*(2*dstFactor+1))/1024\<close>, the factors being
  those of \<open>GetSourceFactor\<close> and \<open>GetDestFactor\<close>: in the portable branch for all inputs,
  and in the SSE branch for colours and fixed factors within [0,255].  In particular, with
  source factor src-alpha (alpha 128, so the destination factor inverse-src-alpha is 127),
  source channel 200 and destination channel 50 the channel is 125, within 1 of
  \<open>(200*128 + 50*127) div 255\<close>.
\<close>

theorem alpha_blend_add:
  assumes eq: "AlphaBlendEq pixelID = GE_BLENDMODE_MUL_AND_ADD"
  shows "AlphaBlendingResult fixA fixB pixelID source dst =
           blend_add_expected (GetSourceFactor fixA (AlphaBlendSrc pixelID) source dst)
             (GetDestFactor fixB (AlphaBlendDst pixelID) source dst) source dst
       \<and> (color4_ok source \<and> color4_ok dst \<and> color3_ok fixA \<and> color3_ok fixB \<longrightarrow>
            AlphaBlendingResult_SSE fixA fixB pixelID source dst =
              blend_add_expected (GetSourceFactor fixA (AlphaBlendSrc pixelID) source dst)
                (GetDestFactor fixB (AlphaBlendDst pixelID) source dst) source dst)
       \<and> (AlphaBlendSrc pixelID = GE_SRCBLEND_SRCALPHA \<and>
            AlphaBlendDst pixelID = GE_DSTBLEND_INVSRCALPHA \<and>
            lane3 source = 128 \<and> lane0 source = 200 \<and> lane0 dst = 50 \<longrightarrow>
            vr (AlphaBlendingResult fixA fixB pixelID source dst) = 125 \<and>
            \<bar>vr (AlphaBlendingResult fixA fixB pixelID source dst) - (200 * 128 + 50 * 127) div 255\<bar> \<le> 1)"
proof -
  define sf where "sf = GetSourceFactor fixA (AlphaBlendSrc pixelID) source dst"
  define df where "df = GetDestFactor fixB (AlphaBlendDst pixelID) source dst"
  have m: "blend_mul s f + blend_mul d g = blend_add_formula s f d g" for s f d g
    by (simp add: blend_mul_def blend_add_formula_def mult.commute)
  have 1: "AlphaBlendingResult fixA fixB pixelID source dst = blend_add_expected sf df source dst"
    using sf_def [symmetric] df_def [symmetric]
    by (cases sf; cases df)
       (simp add: AlphaBlendingResult_def Let_def eq rgb_def m blend_add_expected_def)
  have 2: "AlphaBlendingResult_SSE fixA fixB pixelID source dst = blend_add_expected sf df source dst"
    if ok: "color4_ok source \<and> color4_ok dst \<and> color3_ok fixA \<and> color3_ok fixB"
  proof -
    have rs: "0 \<le> vr sf \<and> vr sf \<le> 510 \<and> 0 \<le> vg sf \<and> vg sf \<le> 510 \<and> 0 \<le> vb sf \<and> vb sf \<le> 510"
      unfolding sf_def using ok by (intro GetSourceFactor_range) simp_all
    have rd: "0 \<le> vr df \<and> vr df \<le> 510 \<and> 0 \<le> vg df \<and> vg df \<le> 510 \<and> 0 \<le> vb df \<and> vb df \<le> 510"
      unfolding df_def using ok by (intro GetDestFactor_range) simp_all
    show ?thesis
      using rs rd ok sf_def [symmetric] df_def [symmetric]
      by (cases sf; cases df)
         (simp add: AlphaBlendingResult_SSE_def Let_def eq rgb_def m blend_add_sse_lane color4_ok_def
            blend_add_expected_def)
  qed
  have 3: "vr (blend_add_expected sf df source dst) = 125"
    if "AlphaBlendSrc pixelID = GE_SRCBLEND_SRCALPHA \<and>
        AlphaBlendDst pixelID = GE_DSTBLEND_INVSRCALPHA \<and>
        lane3 source = 128 \<and> lane0 source = 200 \<and> lane0 dst = 50"
    using that
    by (simp add: sf_def df_def blend_add_expected_def blend_add_formula_def cdiv_def AssignToAll3_def)
  show ?thesis
    unfolding sf_def [symmetric] df_def [symmetric] 1
    using 2 3 by simp
qed

theorem alpha_blend_add_witness:
  "AlphaBlendingResult (Vec3 0 0 0) (Vec3 0 0 0)
     (PixelFuncID_clear\<lparr>AlphaBlendSrc := GE_SRCBLEND_SRCALPHA, AlphaBlendDst := GE_DSTBLEND_INVSRCALPHA\<rparr>)
     (Vec4 200 10 255 128) (Vec4 50 90 0 255) = Vec3 125 50 128
   \<and> AlphaBlendingResult_SSE (Vec3 0 0 0) (Vec3 0 0 0)
     (PixelFuncID_clear\<lparr>AlphaBlendSrc := GE_SRCBLEND_SRCALPHA, AlphaBlendDst := GE_DSTBLEND_INVSRCALPHA\<rparr>)
     (Vec4 200 10 255 128) (Vec4 50 90 0 255) = Vec3 125 50 128
   \<and> \<bar>(125::int) - (200 * 128 + 50 * 127) div 255\<bar> \<le> 1"
  using alpha_blend_add [where pixelID = "PixelFuncID_clear\<lparr>AlphaBlendSrc := GE_SRCBLEND_SRCALPHA,
      AlphaBlendDst := GE_DSTBLEND_INVSRCALPHA\<rparr>" and fixA = "Vec3 0 0 0" and fixB = "Vec3 0 0 0"
      and source = "Vec4 200 10 255 128" and dst = "Vec4 50 90 0 255"]
  by (simp add: PixelFuncID_clear_def AssignToAll3_def blend_add_expected_def blend_add_formula_def
      cdiv_def color4_ok_def color3_ok_def channel_ok_def)

section \<open>Properties of the depth test\<close>

lemma Jit_DepthTest_compare:
  "Jit_DepthTest pid zbwidth st =
     (if depth_compare (DepthTestFunc pid) (ucast (argZ st)) (depthbuf st (GetDepthOff pid zbwidth st))
      then Continue st else Discarded st)"
  by (cases "DepthTestFunc pid") (auto simp: Jit_DepthTest_def CMP_def Let_def)

text \<open>
  C6.  Without stencil testing and outside clear mode, the depth-test stage compares the
  incoming depth (the low 16 bits of the z argument) with the stored 16-bit depth using the
  configured function.  When the comparison fails the compiled function exits with the
  state it was entered with: no later stage runs and nothing is written.  When it holds,
  the depth write and the colour stages run.  In particular, with \<open>LESS\<close>, stored depth 100
  and incoming depth 50 the pixel passes, and with depth write enabled the stored depth is
  50 after the depth-write stage.
\<close>

theorem depth_test_discards_or_writes:
  assumes "\<not> stencilTest pid" and "\<not> clearMode pid"
  shows "CompileSingle_from_depth pid zbwidth stencilAndDepth colorStages st =
           (if depth_compare (DepthTestFunc pid) (ucast (argZ st))
                 (depthbuf st (GetDepthOff pid zbwidth st))
            then colorStages (Jit_WriteDepth pid zbwidth st) else st)
       \<and> (DepthTestFunc pid = GE_COMP_LESS \<and> depthbuf st (GetDepthOff pid zbwidth st) = 100 \<and>
            (ucast (argZ st) :: 16 word) = 50 \<longrightarrow>
            CompileSingle_from_depth pid zbwidth stencilAndDepth colorStages st =
              colorStages (Jit_WriteDepth pid zbwidth st) \<and>
            (depthWrite pid \<longrightarrow>
               depthbuf (Jit_WriteDepth pid zbwidth st) (GetDepthOff pid zbwidth st) = 50))"
  using assms
  by (auto simp: CompileSingle_from_depth_def Jit_DepthTest_compare Jit_WriteDepth_def)


theorem depth_test_discards_or_writes_witness:
  "depthbuf (CompileSingle_from_depth
      (PixelFuncID_clear\<lparr>DepthTestFunc := GE_COMP_LESS, depthWrite := True, useStandardStride := True\<rparr>)
      0 Continue (\<lambda>s. s) \<lparr>argX = 3, argY = 2, argZ = 50, depthbuf = (\<lambda>i. 100), fb = ()\<rparr>) 1027 = 50
   \<and> CompileSingle_from_depth
      (PixelFuncID_clear\<lparr>DepthTestFunc := GE_COMP_LESS, depthWrite := True, useStandardStride := True\<rparr>)
      0 Continue (\<lambda>s. s\<lparr>fb := True\<rparr>) \<lparr>argX = 3, argY = 2, argZ = 50, depthbuf = (\<lambda>i. 10), fb = False\<rparr>
     = \<lparr>argX = 3, argY = 2, argZ = 50, depthbuf = (\<lambda>i. 10), fb = False\<rparr>"
  using depth_test_discards_or_writes [where pid = "PixelFuncID_clear\<lparr>DepthTestFunc := GE_COMP_LESS,
          depthWrite := True, useStandardStride := True\<rparr>" and zbwidth = 0
        and stencilAndDepth = Continue and colorStages = "\<lambda>s. s"
        and st = "\<lparr>argX = 3, argY = 2, argZ = 50, depthbuf = (\<lambda>i. 100), fb = ()\<rparr>"]
      depth_test_discards_or_writes [where pid = "PixelFuncID_clear\<lparr>DepthTestFunc := GE_COMP_LESS,
          depthWrite := True, useStandardStride := True\<rparr>" and zbwidth = 0
        and stencilAndDepth = Continue and colorStages = "\<lambda>s. s\<lparr>fb := True\<rparr>"
        and st = "\<lparr>argX = 3, argY = 2, argZ = 50, depthbuf = (\<lambda>i. 10), fb = False\<rparr>"]
  by (simp add: PixelFuncID_clear_def GetDepthOff_def Jit_WriteDepth_def)

section \<open>Properties of the triangle traversal\<close>

declare DrawTriangleSlice_row.simps [simp del] DrawTriangleSlice_rows.simps [simp del]

lemma DrawTriangle_unfold:
  "DrawTriangle fpu tex tu gstate cuts v0 v1 v2 =
    (if cross32 v0 v1 v2 < 0 then []
     else if sub32 (screenpos_x v0) (screenpos_x v1) = 0 \<and> sub32 (screenpos_y v0) (screenpos_y v1) = 0 \<and>
             sub32 (screenpos_x v0) (screenpos_x v2) = 0 \<and> sub32 (screenpos_y v0) (screenpos_y v2) = 0 then []
     else if clamped_maxX tu gstate v0 v1 v2 < clamped_minX tu gstate v0 v1 v2
           \<or> clamped_maxY tu gstate v0 v1 v2 < clamped_minY tu gstate v0 v1 v2 then []
     else DrawTriangle_dispatch fpu tex tu gstate cuts v0 v1 v2
            (clamped_minX tu gstate v0 v1 v2) (clamped_minY tu gstate v0 v1 v2)
            (clamped_maxX tu gstate v0 v1 v2) (clamped_maxY tu gstate v0 v1 v2)
            [ComputePixelFuncID_call, GetSingleFunc_call, GetFuncs_call])"
  unfolding DrawTriangle_def Let_def fst_conv snd_conv
    cross32_def [symmetric] clamped_minX_def [symmetric] clamped_maxX_def [symmetric]
    clamped_minY_def [symmetric] clamped_maxY_def [symmetric]
    DrawTriangle_dispatch_def [symmetric]
  by (rule refl)


lemma quad_draw_pixels: "e \<in> set (quad_draw px py msk z fog pc) \<Longrightarrow> is_drawPixel e"
  by (auto simp: quad_draw_def split: if_splits)

lemma quad_pixels:
  "e \<in> set (DrawTriangleSlice_quad sl curY curX w0 w1 w2 sm px py) \<Longrightarrow> is_drawPixel e"
  unfolding DrawTriangleSlice_quad_def Let_def
  by (cases "AnyMask (MakeMask w0 w1 w2 (s_bias0 sl) (s_bias1 sl) (s_bias2 sl) sm)")
     (simp_all add: quad_draw_pixels)

lemma row_pixels:
  "e \<in> set (DrawTriangleSlice_row sl curY curX w0 w1 w2 sm px py) \<Longrightarrow> is_drawPixel e"
proof (induction sl curY curX w0 w1 w2 sm px py rule: DrawTriangleSlice_row.induct)
  case (1 sl curY curX w0 w1 w2 sm px py)
  show ?case
  proof (cases "curX \<le> s_maxX sl")
    case True
    from "1.prems" have "e \<in> set (DrawTriangleSlice_quad sl curY curX w0 w1 w2 sm px py)
        \<or> e \<in> set (DrawTriangleSlice_row sl curY (curX + 32)
            (StepX (s_e0 sl) w0) (StepX (s_e1 sl) w1) (StepX (s_e2 sl) w2)
            (vadd sm (Vec4 0 (- 32) 0 (- 32))) ((px + 2) AND 0x3FF) py)"
      by (subst (asm) DrawTriangleSlice_row.simps) (simp add: True)
    then show ?thesis using quad_pixels "1.IH" [OF True] by blast
  next
    case False
    with "1.prems" show ?thesis
      by (subst (asm) DrawTriangleSlice_row.simps) simp
  qed
qed

lemma rows_pixels:
  "e \<in> set (DrawTriangleSlice_rows sl curY w0 w1 w2) \<Longrightarrow> is_drawPixel e"
proof (induction sl curY w0 w1 w2 rule: DrawTriangleSlice_rows.induct)
  case (1 sl curY w0 w1 w2)
  show ?case
  proof (cases "curY \<le> s_maxY sl")
    case True
    from "1.prems" have "(\<exists>sm px py. e \<in> set (DrawTriangleSlice_row sl curY (s_minX sl) w0 w1 w2 sm px py))
        \<or> e \<in> set (DrawTriangleSlice_rows sl (curY + 32)
            (StepY (s_e0 sl) w0) (StepY (s_e1 sl) w1) (StepY (s_e2 sl) w2))"
      by (subst (asm) DrawTriangleSlice_rows.simps) (auto simp: True Let_def)
    then show ?thesis using row_pixels "1.IH" [OF True] by blast
  next
    case False
    with "1.prems" show ?thesis
      by (subst (asm) DrawTriangleSlice_rows.simps) simp
  qed
qed

lemma slice_pixels:
  "e \<in> set (DrawTriangleSlice fpu tex tu gstate clearmode v0 v1 v2 x1 y1 x2 y2) \<Longrightarrow> is_drawPixel e"
  unfolding DrawTriangleSlice_def Let_def
  by (auto split: prod.splits dest: rows_pixels)

lemma is_drawPixel_not_resolution: "is_drawPixel e \<Longrightarrow> \<not> is_resolution e"
  by (cases e) simp_all

lemma drawSlice_appends:
  "\<exists>r. drawSlice fpu tex tu gstate v0 v1 v2 x1 y1 x2 y2 calls = calls @ r \<and> slice_calls r"
  by (auto simp: drawSlice_def slice_calls_def dest: slice_pixels is_drawPixel_not_resolution)

lemma ParallelRangeLoop_appends:
  assumes "\<And>a b calls. \<exists>r. loop a b calls = calls @ r \<and> slice_calls r"
  shows "\<exists>r. ParallelRangeLoop cuts loop lower upper calls = calls @ r \<and> slice_calls r"
proof (induction cuts arbitrary: lower calls)
  case Nil
  show ?case using assms [of lower upper calls] by (auto simp: slice_calls_def)
next
  case (Cons c cuts)
  define c' where "c' = max lower (min c upper)"
  obtain r1 where r1: "(if lower < c' then loop lower c' calls else calls) = calls @ r1" "slice_calls r1"
  proof (cases "lower < c'")
    case True
    then show ?thesis using assms [of lower c' calls] that by auto
  next
    case False
    then show ?thesis using that [of "[]"] by (simp add: slice_calls_def)
  qed
  obtain r2 where r2: "ParallelRangeLoop cuts loop c' upper (calls @ r1) = (calls @ r1) @ r2" "slice_calls r2"
    using Cons.IH [of c' "calls @ r1"] by auto
  have "ParallelRangeLoop (c # cuts) loop lower upper calls = calls @ (r1 @ r2)"
    by (simp add: Let_def c'_def [symmetric] r1 r2)
  moreover have "slice_calls (r1 @ r2)" using r1 r2 by (auto simp: slice_calls_def)
  ultimately show ?case by blast
qed

lemma DrawTriangle_dispatch_appends:
  "\<exists>r. DrawTriangle_dispatch fpu tex tu gstate cuts v0 v1 v2 minX minY maxX maxY calls = calls @ r
       \<and> slice_calls r"
proof -
  have 1: "\<exists>r. ParallelRangeLoop cuts (\<lambda>a b. drawSlice fpu tex tu gstate v0 v1 v2
                   (add32 minX (mul32 (mul32 a 16) 2)) minY
                   (min maxX (sub32 (add32 minX (mul32 (mul32 b 16) 2)) 1)) maxY) 0 u calls = calls @ r
       \<and> slice_calls r" for u
    by (rule ParallelRangeLoop_appends) (rule drawSlice_appends)
  have 2: "\<exists>r. ParallelRangeLoop cuts (\<lambda>a b. drawSlice fpu tex tu gstate v0 v1 v2
                   minX (add32 minY (mul32 (mul32 a 16) 2)) maxX
                   (min maxY (sub32 (add32 minY (mul32 (mul32 b 16) 2)) 1))) 0 u calls = calls @ r
       \<and> slice_calls r" for u
    by (rule ParallelRangeLoop_appends) (rule drawSlice_appends)
  show ?thesis
    unfolding DrawTriangle_dispatch_def
    using 1 2 drawSlice_appends [of fpu tex tu gstate v0 v1 v2 minX minY maxX maxY calls]
    by simp
qed



text \<open>
  C9.  Every call to \<open>DrawTriangle\<close> either makes no call at all, or first resolves the
  pixel fingerprint, the compiled pixel function and the sampler functions, and only then
  starts slices; whatever the cut points of the thread pool, no slice resolves anything:
  the calls after the first three are slice starts and calls of the compiled pixel
  function.
\<close>

theorem resolution_precedes_slices:
  "DrawTriangle fpu tex tu gstate cuts v0 v1 v2 = []
   \<or> (\<exists>slices. DrawTriangle fpu tex tu gstate cuts v0 v1 v2 =
          [ComputePixelFuncID_call, GetSingleFunc_call, GetFuncs_call] @ slices
        \<and> (\<forall>e \<in> set slices. \<not> is_resolution e))"
  using DrawTriangle_dispatch_appends [of fpu tex tu gstate cuts v0 v1 v2
      "clamped_minX tu gstate v0 v1 v2" "clamped_minY tu gstate v0 v1 v2"
      "clamped_maxX tu gstate v0 v1 v2" "clamped_maxY tu gstate v0 v1 v2"
      "[ComputePixelFuncID_call, GetSingleFunc_call, GetFuncs_call]"]
  unfolding DrawTriangle_unfold slice_calls_def
  by (simp split: if_split)

lemma example_parallel_nonempty:
  "DrawTriangle exact_fpu no_texturing (offset_tu 0 0)
     (example_gstate\<lparr>getScissorX2 := 99, getScissorY2 := 99\<rparr>) [4, 8]
     (example_vertex 0 0 5 (Vec4 1 2 3 4)) (example_vertex 383 0 5 (Vec4 1 2 3 4))
     (example_vertex 0 383 5 (Vec4 1 2 3 4)) \<noteq> []
   \<and> filter (\<lambda>e. \<not> is_drawPixel e) (DrawTriangle exact_fpu no_texturing (offset_tu 0 0)
     (example_gstate\<lparr>getScissorX2 := 99, getScissorY2 := 99\<rparr>) [4, 8]
     (example_vertex 0 0 5 (Vec4 1 2 3 4)) (example_vertex 383 0 5 (Vec4 1 2 3 4))
     (example_vertex 0 383 5 (Vec4 1 2 3 4)))
     = [ComputePixelFuncID_call, GetSingleFunc_call, GetFuncs_call, Slice_begin 0 0 383 127,
        Slice_begin 0 128 383 255, Slice_begin 0 256 383 383]"
  by code_simp

theorem resolution_precedes_slices_witness:
  "\<exists>slices. DrawTriangle exact_fpu no_texturing (offset_tu 0 0)
       (example_gstate\<lparr>getScissorX2 := 99, getScissorY2 := 99\<rparr>) [4, 8]
       (example_vertex 0 0 5 (Vec4 1 2 3 4)) (example_vertex 383 0 5 (Vec4 1 2 3 4))
       (example_vertex 0 383 5 (Vec4 1 2 3 4))
     = [ComputePixelFuncID_call, GetSingleFunc_call, GetFuncs_call] @ slices
     \<and> filter is_resolution slices = []
     \<and> filter (\<lambda>e. \<not> is_drawPixel e) slices
        = [Slice_begin 0 0 383 127, Slice_begin 0 128 383 255, Slice_begin 0 256 383 383]"
proof -
  from resolution_precedes_slices [of exact_fpu no_texturing "offset_tu 0 0"
       "example_gstate\<lparr>getScissorX2 := 99, getScissorY2 := 99\<rparr>" "[4, 8]"
       "example_vertex 0 0 5 (Vec4 1 2 3 4)" "example_vertex 383 0 5 (Vec4 1 2 3 4)"
       "example_vertex 0 383 5 (Vec4 1 2 3 4)"] example_parallel_nonempty
  obtain slices where s: "DrawTriangle exact_fpu no_texturing (offset_tu 0 0)
       (example_gstate\<lparr>getScissorX2 := 99, getScissorY2 := 99\<rparr>) [4, 8]
       (example_vertex 0 0 5 (Vec4 1 2 3 4)) (example_vertex 383 0 5 (Vec4 1 2 3 4))
       (example_vertex 0 383 5 (Vec4 1 2 3 4))
     = [ComputePixelFuncID_call, GetSingleFunc_call, GetFuncs_call] @ slices"
    and r: "\<forall>e \<in> set slices. \<not> is_resolution e"
    by blast
  from r have f: "filter is_resolution slices = []" by (simp add: filter_empty_conv)
  from example_parallel_nonempty [THEN conjunct2, unfolded s]
  have "filter (\<lambda>e. \<not> is_drawPixel e) slices
        = [Slice_begin 0 0 383 127, Slice_begin 0 128 383 255, Slice_begin 0 256 383 383]"
    by simp
  with s f show ?thesis by blast
qed

section \<open>Properties of the 32-bit arithmetic and of the traversal in closed form\<close>

lemma wrap32_sint: "wrap32 x = sint (word_of_int x :: 32 word)"
proof -
  have "sint (word_of_int x :: 32 word) = (x + 2147483648) mod 4294967296 - 2147483648"
    by (simp add: sint_sbintrunc' signed_take_bit_eq_take_bit_shift take_bit_eq_mod)
  moreover have "(x + 2147483648) mod 4294967296 - 2147483648 = x"
    if "- 2147483648 \<le> x" "x < 2147483648"
    using that by simp
  ultimately show ?thesis by (simp add: wrap32_def)
qed


lemma wrap32_range: "- 2147483648 \<le> wrap32 x \<and> wrap32 x < 2147483648"
  using sint_ge [of "word_of_int x :: 32 word"] sint_lt [of "word_of_int x :: 32 word"]
  by (simp add: wrap32_sint)










































text \<open>For vertices further apart the 32-bit cross product can differ from the area in
  sign: here the triangle is wound clockwise and the value tested is positive.\<close>

lemma cross32_far_vertices:
  "signed_area2 (example_vertex 0 0 5 (Vec4 1 2 3 4)) (example_vertex 0 46352 5 (Vec4 1 2 3 4))
     (example_vertex 46352 0 5 (Vec4 1 2 3 4)) = - 2148507904
   \<and> cross32 (example_vertex 0 0 5 (Vec4 1 2 3 4)) (example_vertex 0 46352 5 (Vec4 1 2 3 4))
     (example_vertex 46352 0 5 (Vec4 1 2 3 4)) = 2146459392"
  by code_simp





















section \<open>Properties of the interpolated attributes\<close>





section \<open>Properties of lines\<close>

declare DrawLine_loop.simps [simp del] for_loop.simps [simp del]

lemma cdiv_nonneg: "0 \<le> a \<Longrightarrow> 0 < b \<Longrightarrow> cdiv a b = a div b"
  by (simp add: cdiv_def sgn_if)

lemma DrawLine_steps_max:
  "DrawLine_steps v0 v1 =
     max \<bar>screenpos_x v1 - screenpos_x v0\<bar> \<bar>screenpos_y v1 - screenpos_y v0\<bar> div 16"
  by (simp add: DrawLine_steps_def Let_def cdiv_nonneg max_def)

lemma DrawLine_loop_no_steps: "l_steps lin \<le> i \<Longrightarrow> DrawLine_loop lin i x y z = []"
  by (subst DrawLine_loop.simps) simp

lemma DrawLine_zero_steps:
  "DrawLine_steps v0 v1 = 0 \<Longrightarrow>
   DrawLine fpu tex tu gstate pixelID v0 v1 =
     [ComputePixelFuncID_call, GetFuncs_call, GetSingleFunc_call]"
  unfolding DrawLine_def Let_def by (simp add: DrawLine_loop_no_steps)

text \<open>C10. When the two endpoints of a line are fewer than 16 subpixel units apart along the
  dominant axis, the step count \<open>max(|dx|, |dy|) / 16\<close> is zero, the loop body of
  \<open>DrawLine\<close> never runs, and the call consists of the three function lookups only: it
  calls \<open>drawPixel\<close> not once and leaves every buffer as it was.\<close>

theorem DrawLine_short_line_draws_nothing:
  assumes "max \<bar>screenpos_x v1 - screenpos_x v0\<bar> \<bar>screenpos_y v1 - screenpos_y v0\<bar> < 16"
  shows "DrawLine_steps v0 v1 =
           max \<bar>screenpos_x v1 - screenpos_x v0\<bar> \<bar>screenpos_y v1 - screenpos_y v0\<bar> div 16
       \<and> DrawLine_steps v0 v1 = 0
       \<and> DrawLine fpu tex tu gstate pixelID v0 v1 =
           [ComputePixelFuncID_call, GetFuncs_call, GetSingleFunc_call]
       \<and> filter is_drawPixel (DrawLine fpu tex tu gstate pixelID v0 v1) = []
       \<and> apply_events drawPixel (DrawLine fpu tex tu gstate pixelID v0 v1) m = m"
proof -
  have s: "DrawLine_steps v0 v1 = 0"
    using assms unfolding DrawLine_steps_max by simp
  have e: "DrawLine fpu tex tu gstate pixelID v0 v1 =
           [ComputePixelFuncID_call, GetFuncs_call, GetSingleFunc_call]"
    using s by (rule DrawLine_zero_steps)
  show ?thesis
    unfolding e using s DrawLine_steps_max [of v0 v1] by (simp add: apply_events_def)
qed

lemma example_line:
  "DrawLine exact_fpu no_line_texturing (offset_tu 0 0) example_gstate PixelFuncID_clear
     (example_vertex 16 16 5 (Vec4 1 2 3 4)) (example_vertex 80 40 5 (Vec4 9 9 9 9))
   = [ComputePixelFuncID_call, GetFuncs_call, GetSingleFunc_call,
      drawPixel_call 1 1 5 255 (Vec4 9 9 9 9), drawPixel_call 2 1 5 255 (Vec4 9 9 9 9),
      drawPixel_call 3 1 5 255 (Vec4 9 9 9 9), drawPixel_call 4 2 5 255 (Vec4 9 9 9 9)]"
  by code_simp

theorem DrawLine_short_line_draws_nothing_witness:
  "max \<bar>(25::int) - 16\<bar> \<bar>(11::int) - 16\<bar> < 16
   \<and> DrawLine exact_fpu no_line_texturing (offset_tu 0 0) example_gstate PixelFuncID_clear
       (example_vertex 16 16 5 (Vec4 1 2 3 4)) (example_vertex 25 11 5 (Vec4 9 9 9 9))
     = [ComputePixelFuncID_call, GetFuncs_call, GetSingleFunc_call]"
  using DrawLine_short_line_draws_nothing [where ?v0.0 = "example_vertex 16 16 5 (Vec4 1 2 3 4)"
      and ?v1.0 = "example_vertex 25 11 5 (Vec4 9 9 9 9)" and fpu = exact_fpu
      and tex = no_line_texturing and tu = "offset_tu 0 0" and gstate = example_gstate
      and pixelID = PixelFuncID_clear and drawPixel = "\<lambda>x y z fog c m. m" and m = "()"]
  by (simp add: example_vertex_def)

section \<open>Properties of the rectangle clear\<close>

lemma for_loop_empty: "hi \<le> i \<Longrightarrow> for_loop i hi body s = s"
  by (subst for_loop.simps) simp

lemma for_loop_step: "i < hi \<Longrightarrow> for_loop i hi body s = for_loop (i + 1) hi body (body i s)"
  by (subst for_loop.simps) simp

lemma for_loop_split:
  "lo \<le> mid \<Longrightarrow> mid \<le> hi \<Longrightarrow>
   for_loop lo hi body s = for_loop mid hi body (for_loop lo mid body s)"
proof (induction lo mid body s rule: for_loop.induct)
  case (1 i mid body s)
  show ?case
  proof (cases "i < mid")
    case True
    then have "i < hi" using "1.prems" by simp
    from "1.IH" [OF True] "1.prems" True
    have "for_loop (i + 1) hi body (body i s) = for_loop mid hi body (for_loop (i + 1) mid body (body i s))"
      by simp
    then show ?thesis
      by (simp add: for_loop_step [OF True] for_loop_step [OF \<open>i < hi\<close>])
  next
    case False
    then have "i = mid" using "1.prems" by simp
    then show ?thesis by (simp add: for_loop_empty)
  qed
qed

lemma ParallelRangeLoop_for_loop:
  "ParallelRangeLoop cuts (\<lambda>a b. for_loop a b body) lower upper s = for_loop lower upper body s"
proof (induction cuts arbitrary: lower s)
  case Nil
  show ?case by (simp add: for_loop_empty)
next
  case (Cons c cuts)
  define c' where "c' = max lower (min c upper)"
  show ?case
  proof (cases "lower < upper")
    case True
    then have b: "lower \<le> c'" "c' \<le> upper" by (auto simp: c'_def)
    have "(if lower < c' then for_loop lower c' body s else s) = for_loop lower c' body s"
      by (simp add: for_loop_empty)
    then show ?thesis
      using for_loop_split [OF b, of body s]
      by (simp add: Let_def c'_def [symmetric] Cons.IH)
  next
    case False
    then have "c' = lower" by (auto simp: c'_def)
    with False show ?thesis
      by (simp add: Let_def c'_def [symmetric] Cons.IH for_loop_empty)
  qed
qed

lemma for_loop_fill:
  assumes "\<And>i s. lo \<le> i \<Longrightarrow> i < hi \<Longrightarrow> body i s = (\<lambda>a. if a \<in> A i then f a else s a)"
  shows "for_loop lo hi body s = (\<lambda>a. if a \<in> (\<Union>i \<in> {lo..<hi}. A i) then f a else s a)"
  using assms
proof (induction lo hi body s rule: for_loop.induct)
  case (1 i hi body s)
  show ?case
  proof (cases "i < hi")
    case True
    define U where "U = (\<Union>j \<in> {i + 1..<hi}. A j)"
    have a: "for_loop (i + 1) hi body (body i s) = (\<lambda>a. if a \<in> U then f a else body i s a)"
      unfolding U_def by (rule "1.IH" [OF True]) (simp add: "1.prems")
    have b: "body i s = (\<lambda>a. if a \<in> A i then f a else s a)"
      using True by (simp add: "1.prems")
    have "{i..<hi} = insert i {i + 1..<hi}" using True by auto
    then have c: "(\<Union>j \<in> {i..<hi}. A j) = A i \<union> U"
      unfolding U_def by simp
    have "for_loop i hi body s = (\<lambda>a. if a \<in> U then f a else (if a \<in> A i then f a else s a))"
      unfolding for_loop_step [OF True] a unfolding b by (rule refl)
    also have "\<dots> = (\<lambda>a. if a \<in> A i \<union> U then f a else s a)"
      by (rule ext) simp
    finally show ?thesis unfolding c .
  next
    case False
    then show ?thesis by (simp add: for_loop_empty)
  qed
qed

lemma ClearRectangle_unfold:
  "ClearRectangle tu gstate depth_cuts color_cuts v0 v1 bufs =
    (if ClearRectangle_w tu gstate v0 v1 \<le> 0 then bufs
     else
       (if isClearModeDepthMask gstate
        then bufs\<lparr>depthmem := ClearRectangle_depth depth_cuts (DepthBufStride gstate)
                      (word_of_int (screenpos_z v1)) (ClearRectangle_pprime tu gstate v0 v1)
                      (ClearRectangle_pend tu gstate v0 v1) (ClearRectangle_w tu gstate v0 v1)
                      (depthmem bufs)\<rparr>
        else bufs)
       \<lparr>fbmem := ClearRectangle_color color_cuts gstate (ClearRectangle_keepOldMask gstate)
                   (ToRGBA (color0 v1)) (ClearRectangle_new_color16 gstate (ToRGBA (color0 v1)))
                   (ClearRectangle_pprime tu gstate v0 v1) (ClearRectangle_pend tu gstate v0 v1)
                   (ClearRectangle_w tu gstate v0 v1)
                   (fbmem (if isClearModeDepthMask gstate
        then bufs\<lparr>depthmem := ClearRectangle_depth depth_cuts (DepthBufStride gstate)
                      (word_of_int (screenpos_z v1)) (ClearRectangle_pprime tu gstate v0 v1)
                      (ClearRectangle_pend tu gstate v0 v1) (ClearRectangle_w tu gstate v0 v1)
                      (depthmem bufs)\<rparr>
        else bufs))\<rparr>)"
  unfolding ClearRectangle_def Let_def fst_conv snd_conv
    ClearRectangle_w_def ClearRectangle_pprime_def ClearRectangle_pend_def
    ClearRectangle_minX_def ClearRectangle_maxX_def ClearRectangle_minY_def ClearRectangle_maxY_def
  by (rule refl)

lemma keepOldMask_all_ones:
  assumes "\<not> isClearModeColorMask gstate" and "\<not> isClearModeAlphaMask gstate"
  shows "ClearRectangle_keepOldMask gstate = 0xFFFFFFFF"
proof -
  have e: "(0xFFFFFFFF :: 32 word) = - 1" by simp
  have m: "(0xFFFFFFFF :: 32 word) OR x = 0xFFFFFFFF" for x
    unfolding e by simp
  have "(0xFFFF0000 :: 32 word) OR ucast (RGBA8888ToRGB565 0xFFFFFFFF) = 0xFFFFFFFF"
       "(0xFFFF0000 :: 32 word) OR ucast (RGBA8888ToRGBA5551 0xFFFFFFFF) = 0xFFFFFFFF"
       "(0xFFFF0000 :: 32 word) OR ucast (RGBA8888ToRGBA4444 0xFFFFFFFF) = 0xFFFFFFFF"
    by (simp_all add: RGBA8888ToRGB565_def RGBA8888ToRGBA5551_def RGBA8888ToRGBA4444_def)
  then show ?thesis
    using assms
    by (cases "FrameBufFormat gstate") (simp_all add: ClearRectangle_keepOldMask_def Let_def m)
qed

lemma ClearRectangle_color_keeps:
  "ClearRectangle_color cuts gstate 0xFFFFFFFF new_color new_color16 pprime pend w mem = mem"
  by (simp add: ClearRectangle_color_def Let_def)


lemma Set16_fill:
  "Set16 m x y stride v =
     (\<lambda>a. if a \<in> {2 * (x + y * stride), 2 * (x + y * stride) + 1} then z_byte v a else m a)"
  by (auto simp: Set16_def z_byte_def fun_eq_iff)

lemma row_Set16:
  "for_loop 0 w (\<lambda>x m. Set16 m (px + x) py stride z) m =
     (\<lambda>a. if a \<in> (\<Union>x \<in> {0..<w}. {2 * (px + x + py * stride), 2 * (px + x + py * stride) + 1})
          then z_byte z a else m a)"
  by (rule for_loop_fill) (simp add: Set16_fill)

lemma memset_fill:
  "memset m ptr c n = (\<lambda>a. if a \<in> (\<Union>k \<in> {0..<n}. {ptr + k}) then c else m a)"
  unfolding memset_def by (rule for_loop_fill) (auto simp: fun_eq_iff)

lemma equal_bytes_z_byte:
  assumes "z AND 0xFF = drop_bit 8 z"
  shows "z_byte z a = ucast z"
proof -
  have "(ucast (drop_bit 8 z) :: 8 word) = ucast (z AND 0xFF)"
    by (simp add: assms)
  also have "\<dots> = ucast z"
  proof -
    have m: "(0xFF :: 16 word) = mask 8" by (simp add: mask_eq_exp_minus_1)
    show ?thesis unfolding m by (rule bit_word_eqI) (auto simp: bit_simps)
  qed
  finally show ?thesis by (simp add: z_byte_def)
qed

lemma pair_bytes:
  "(\<Union>k \<in> {0..<w * 2}. {2 * b + k}) = (\<Union>x \<in> {0..<w}. {2 * (b + x), 2 * (b + x) + 1})"
  for b w :: int
proof (intro set_eqI iffI)
  fix a assume "a \<in> (\<Union>k \<in> {0..<w * 2}. {2 * b + k})"
  then obtain k where k: "0 \<le> k" "k < w * 2" "a = 2 * b + k" by auto
  define x where "x = k div 2"
  have "0 \<le> x" "x < w" "k = 2 * x \<or> k = 2 * x + 1" using k by (auto simp: x_def)
  then show "a \<in> (\<Union>x \<in> {0..<w}. {2 * (b + x), 2 * (b + x) + 1})"
    using k(3) by (auto intro!: bexI [of _ x])
next
  fix a assume "a \<in> (\<Union>x \<in> {0..<w}. {2 * (b + x), 2 * (b + x) + 1})"
  then obtain x where x: "0 \<le> x" "x < w" "a = 2 * (b + x) \<or> a = 2 * (b + x) + 1" by auto
  then show "a \<in> (\<Union>k \<in> {0..<w * 2}. {2 * b + k})"
    by (auto intro: bexI [of _ "2 * x"] bexI [of _ "2 * x + 1"])
qed

lemma row_memset:
  assumes "z AND 0xFF = drop_bit 8 z"
  shows "memset m (Get16Ptr px py stride) (ucast z) (w * 2) =
     (\<lambda>a. if a \<in> (\<Union>x \<in> {0..<w}. {2 * (px + x + py * stride), 2 * (px + x + py * stride) + 1})
          then z_byte z a else m a)"
proof -
  have "(\<Union>k \<in> {0..<w * 2}. {2 * (px + py * stride) + k})
      = (\<Union>x \<in> {0..<w}. {2 * (px + py * stride + x), 2 * (px + py * stride + x) + 1})"
    by (rule pair_bytes)
  also have "\<dots> = (\<Union>x \<in> {0..<w}. {2 * (px + x + py * stride), 2 * (px + x + py * stride) + 1})"
    by (simp add: add.assoc add.commute add.left_commute)
  finally have q: "(\<Union>k \<in> {0..<w * 2}. {2 * (px + py * stride) + k})
      = (\<Union>x \<in> {0..<w}. {2 * (px + x + py * stride), 2 * (px + x + py * stride) + 1})" .
  show ?thesis
    unfolding memset_fill Get16Ptr_def q
    by (simp only: equal_bytes_z_byte [OF assms])
qed

lemma ClearRectangle_depth_fill:
  "ClearRectangle_depth cuts stride z pprime pend w mem =
     (\<lambda>a. if a \<in> depth_rect_bytes stride pprime pend w then z_byte z a else mem a)"
proof (cases "z AND 0xFF = drop_bit 8 z")
  case True
  have "for_loop (snd pprime) (snd pend)
          (\<lambda>py m. memset m (Get16Ptr (fst pprime) py stride) (ucast z) (w * 2)) mem =
        (\<lambda>a. if a \<in> depth_rect_bytes stride pprime pend w then z_byte z a else mem a)"
    unfolding depth_rect_bytes_def by (rule for_loop_fill) (simp add: row_memset [OF True])
  then show ?thesis
    by (simp add: ClearRectangle_depth_def True ParallelRangeLoop_for_loop)
next
  case False
  have "for_loop (snd pprime) (snd pend)
          (\<lambda>py. for_loop 0 w (\<lambda>x m. Set16 m (fst pprime + x) py stride z)) mem =
        (\<lambda>a. if a \<in> depth_rect_bytes stride pprime pend w then z_byte z a else mem a)"
    unfolding depth_rect_bytes_def by (rule for_loop_fill) (simp add: row_Set16)
  then show ?thesis
    by (simp add: ClearRectangle_depth_def False ParallelRangeLoop_for_loop)
qed

text \<open>C7. When the clear-mode colour mask and alpha mask are both off and the clear-mode depth
  mask is on, \<open>ClearRectangle\<close> leaves every byte of the colour framebuffer unchanged, and
  the depth buffer changes exactly on the rows of the clamped rectangle, where each 16-bit cell
  receives the depth of the second vertex.\<close>

theorem ClearRectangle_depth_only:
  assumes "\<not> isClearModeColorMask gstate" and "\<not> isClearModeAlphaMask gstate"
    and "isClearModeDepthMask gstate"
  shows "fbmem (ClearRectangle tu gstate depth_cuts color_cuts v0 v1 bufs) = fbmem bufs
       \<and> depthmem (ClearRectangle tu gstate depth_cuts color_cuts v0 v1 bufs) =
           (\<lambda>a. if a \<in> cleared_depth_bytes tu gstate v0 v1
                then z_byte (word_of_int (screenpos_z v1)) a else depthmem bufs a)"
proof (cases "ClearRectangle_w tu gstate v0 v1 \<le> 0")
  case True
  then show ?thesis
    by (simp add: ClearRectangle_unfold cleared_depth_bytes_def)
next
  case False
  then show ?thesis
    using assms(3)
    by (simp add: ClearRectangle_unfold cleared_depth_bytes_def keepOldMask_all_ones [OF assms(1,2)]
        ClearRectangle_color_keeps ClearRectangle_depth_fill)
qed

lemma example_cleared_bytes:
  "cleared_depth_bytes (offset_tu 0 0) example_clear_gstate
     (example_vertex 0 0 0 (Vec4 1 2 3 4)) (example_vertex 32 16 258 (Vec4 1 2 3 4)) = {0, 1, 2, 3}"
  by code_simp

theorem ClearRectangle_depth_only_witness:
  "fbmem (ClearRectangle (offset_tu 0 0) example_clear_gstate [] []
      (example_vertex 0 0 0 (Vec4 1 2 3 4)) (example_vertex 32 16 258 (Vec4 1 2 3 4))
      \<lparr>fbmem = (\<lambda>a. 7), depthmem = (\<lambda>a. 9)\<rparr>) = (\<lambda>a. 7)
   \<and> map (depthmem (ClearRectangle (offset_tu 0 0) example_clear_gstate [] []
      (example_vertex 0 0 0 (Vec4 1 2 3 4)) (example_vertex 32 16 258 (Vec4 1 2 3 4))
      \<lparr>fbmem = (\<lambda>a. 7), depthmem = (\<lambda>a. 9)\<rparr>)) [- 1, 0, 1, 2, 3, 4, 1024] = [9, 2, 1, 2, 1, 9, 9]"
proof -
  have h: "\<not> isClearModeColorMask example_clear_gstate" "\<not> isClearModeAlphaMask example_clear_gstate"
    "isClearModeDepthMask example_clear_gstate"
    by (simp_all add: example_clear_gstate_def example_gstate_def)
  have z: "screenpos_z (example_vertex 32 16 258 (Vec4 1 2 3 4)) = 258"
    by (simp add: example_vertex_def)
  note t = ClearRectangle_depth_only [OF h, where tu = "offset_tu 0 0"
      and depth_cuts = "[]" and color_cuts = "[]" and ?v0.0 = "example_vertex 0 0 0 (Vec4 1 2 3 4)"
      and ?v1.0 = "example_vertex 32 16 258 (Vec4 1 2 3 4)"
      and bufs = "\<lparr>fbmem = (\<lambda>a. 7), depthmem = (\<lambda>a. 9)\<rparr>", unfolded example_cleared_bytes z]
  show ?thesis
    by (simp add: t z_byte_def)
qed

end
